theory Spec2Isabelle
  imports Main "HOL-Library.Word"
begin

section \<open>Python strings\<close>

text \<open>
  A Python \<open>str\<close> is a sequence of code points. It is modelled as a \<open>string\<close> with one
  \<open>char\<close> per code point, so the embedding covers the strings whose code points lie in
  U+0000..U+00FF; \<open>length\<close> is Python's \<open>len\<close>. The operations below are the \<open>str\<close>
  methods the tools call.
\<close>

abbreviation NL :: char where "NL \<equiv> CHR 0x0A"

abbreviation CR :: char where "CR \<equiv> CHR 0x0D"

definition isspace :: "char \<Rightarrow> bool" where
  \<comment> \<open>the code points below U+0100 that \<open>str.strip()\<close> and \<open>str.split()\<close> treat as whitespace\<close>
  "isspace c =
     (let n = (of_char c :: nat)
      in (9 \<le> n \<and> n \<le> 13) \<or> (28 \<le> n \<and> n \<le> 32) \<or> n = 133 \<or> n = 160)"

definition strip :: "string \<Rightarrow> string" where
  \<comment> \<open>\<open>s.strip()\<close>\<close>
  "strip s = rev (dropWhile isspace (rev (dropWhile isspace s)))"

fun startswith :: "string \<Rightarrow> string \<Rightarrow> bool" where
  \<comment> \<open>\<open>s.startswith(p)\<close>\<close>
  "startswith s [] = True"
| "startswith [] (p # ps) = False"
| "startswith (c # cs) (p # ps) = (c = p \<and> startswith cs ps)"

fun contains :: "string \<Rightarrow> string \<Rightarrow> bool" where
  \<comment> \<open>\<open>sub in s\<close>\<close>
  "contains [] sub = (sub = [])"
| "contains (c # cs) sub = (startswith (c # cs) sub \<or> contains cs sub)"

fun split_nl :: "string \<Rightarrow> string list" where
  \<comment> \<open>\<open>s.split('\n')\<close>: never empty, \<open>''.split('\n') == ['']\<close>\<close>
  "split_nl [] = [[]]"
| "split_nl (c # cs) =
     (if c = NL then [] # split_nl cs
      else (case split_nl cs of [] \<Rightarrow> [[c]] | l # ls \<Rightarrow> (c # l) # ls))"

fun join_nl :: "string list \<Rightarrow> string" where
  \<comment> \<open>\<open>'\n'.join(ls)\<close>\<close>
  "join_nl [] = []"
| "join_nl [l] = l"
| "join_nl (l # m # ls) = l @ NL # join_nl (m # ls)"

fun split_ws_from :: "string \<Rightarrow> string \<Rightarrow> string list" where
  \<comment> \<open>the scan of \<open>s.split()\<close>; the first argument is the current token, reversed\<close>
  "split_ws_from cur [] = (if cur = [] then [] else [rev cur])"
| "split_ws_from cur (c # cs) =
     (if isspace c then (if cur = [] then split_ws_from [] cs else rev cur # split_ws_from [] cs)
      else split_ws_from (c # cur) cs)"

definition split_ws :: "string \<Rightarrow> string list" where
  \<comment> \<open>\<open>s.split()\<close>: the maximal runs of non-whitespace\<close>
  "split_ws s = split_ws_from [] s"

definition count_nl :: "string \<Rightarrow> nat" where
  \<comment> \<open>\<open>s.count('\n')\<close>\<close>
  "count_nl s = length (filter (\<lambda>c. c = NL) s)"

subsection \<open>Formatting integers\<close>

definition digit :: "nat \<Rightarrow> char" where
  "digit d = ''0123456789abcdef'' ! (d mod 16)"

fun str_nat :: "nat \<Rightarrow> string" where
  "str_nat n = (if n < 10 then [digit n] else str_nat (n div 10) @ [digit (n mod 10)])"

declare str_nat.simps [simp del]

definition str_int :: "int \<Rightarrow> string" where
  \<comment> \<open>\<open>str(i)\<close>, the \<open>{i}\<close> of an f-string\<close>
  "str_int i = (if i < 0 then CHR ''-'' # str_nat (nat (- i)) else str_nat (nat i))"

fun commas_nat :: "nat \<Rightarrow> string" where
  "commas_nat n =
     (if n < 1000 then str_nat n
      else commas_nat (n div 1000) @ CHR '','' #
           [digit (n mod 1000 div 100), digit (n mod 100 div 10), digit (n mod 10)])"

declare commas_nat.simps [simp del]

definition commas_int :: "int \<Rightarrow> string" where
  \<comment> \<open>the \<open>{i:,}\<close> of an f-string: decimal digits in groups of three\<close>
  "commas_int i = (if i < 0 then CHR ''-'' # commas_nat (nat (- i)) else commas_nat (nat i))"

section \<open>Tool results and exceptions\<close>

record ToolExecResult =
  "output" :: "string option"
  error :: "string option"
  error_code :: int

definition result_output :: "string \<Rightarrow> ToolExecResult" where
  \<comment> \<open>\<open>ToolExecResult(output=s)\<close>; \<open>error_code\<close> defaults to 0\<close>
  "result_output s = \<lparr>output = Some s, error = None, error_code = 0\<rparr>"

definition result_error :: "string \<Rightarrow> int \<Rightarrow> ToolExecResult" where
  \<comment> \<open>\<open>ToolExecResult(error=e, error_code=c)\<close>\<close>
  "result_error e c = \<lparr>output = None, error = Some e, error_code = c\<rparr>"

type_synonym byte = "8 word"

datatype py_exception =
    FileNotFoundError string
  | IsADirectoryError string
  | NotADirectoryError string
  | UnicodeDecodeError byte nat string
  | CodePointAboveFF
  | ZeroDivisionError
  | IndexError
  | AttributeError string
  | TypeError string
  | OtherException string

fun exc_str :: "py_exception \<Rightarrow> string" where
  \<comment> \<open>\<open>str(e)\<close>\<close>
  "exc_str (FileNotFoundError p) = ''[Errno 2] No such file or directory: '' @ [CHR 39] @ p @ [CHR 39]"
| "exc_str (IsADirectoryError p) = ''[Errno 21] Is a directory: '' @ [CHR 39] @ p @ [CHR 39]"
| "exc_str (NotADirectoryError p) = ''[Errno 20] Not a directory: '' @ [CHR 39] @ p @ [CHR 39]"
| "exc_str (UnicodeDecodeError b pos reason) =
     [CHR 39] @ ''utf-8'' @ [CHR 39] @ '' codec can'' @ [CHR 39] @ ''t decode byte 0x'' @
     [digit (unat b div 16), digit (unat b mod 16)] @ '' in position '' @ str_nat pos @ '': '' @ reason"
| "exc_str CodePointAboveFF = ''code point above U+00FF''"
| "exc_str ZeroDivisionError = ''integer division or modulo by zero''"
| "exc_str IndexError = ''list index out of range''"
| "exc_str (AttributeError m) = m"
| "exc_str (TypeError m) = m"
| "exc_str (OtherException m) = m"

section \<open>Tool arguments\<close>

text \<open>
  A tool receives a dictionary. A field that the tool reads with \<open>arguments.get(key)\<close>
  is an \<open>option\<close>: a missing key and the value \<open>None\<close> both read as \<open>None\<close>. A field
  read with a default, \<open>arguments.get(key, default)\<close>, distinguishes the missing key,
  which reads as the default, from the key that is present with the value \<open>None\<close>.
\<close>

datatype 'a entry = Missing | NoneValue | Value 'a

definition get_or :: "'a entry \<Rightarrow> 'a \<Rightarrow> 'a option" where
  \<comment> \<open>\<open>arguments.get(key, default)\<close>; the result \<open>None\<close> is Python's \<open>None\<close>\<close>
  "get_or e dflt = (case e of Missing \<Rightarrow> Some dflt | NoneValue \<Rightarrow> None | Value v \<Rightarrow> Some v)"

definition str_opt :: "string option \<Rightarrow> string" where
  \<comment> \<open>\<open>{x}\<close> in an f-string for a string that may be \<open>None\<close>\<close>
  "str_opt x = (case x of Some s \<Rightarrow> s | None \<Rightarrow> ''None'')"

section \<open>The file system\<close>

text \<open>
  Files hold bytes; the tools open them in text mode with \<open>encoding='utf-8'\<close>. A code
  point below U+0080 is one byte, one in U+0080..U+00FF is two. Writing is on a POSIX
  system, where text mode writes \<open>\n\<close> unchanged; reading is with universal newlines
  (the default \<open>newline=None\<close>), which turns \<open>\r\n\<close> and \<open>\r\<close> into \<open>\n\<close>.
  Access rights are not modelled.
\<close>

datatype fnode = Dir | File "byte list"

type_synonym filesystem = "string \<rightharpoonup> fnode"

definition utf8_char :: "char \<Rightarrow> byte list" where
  "utf8_char c =
     (let n = (of_char c :: nat)
      in if n < 128 then [of_nat n] else [of_nat (192 + n div 64), of_nat (128 + n mod 64)])"

definition utf8_encode :: "string \<Rightarrow> byte list" where
  "utf8_encode s = concat (map utf8_char s)"

fun utf8_decode_from :: "nat \<Rightarrow> byte list \<Rightarrow> py_exception + string" where
  \<comment> \<open>the strict decoder; the first argument is the position of the next byte\<close>
  "utf8_decode_from pos [] = Inr []"
| "utf8_decode_from pos [b] =
     (if unat b < 128 then Inr [char_of (unat b)]
      else if unat b < 194 \<or> 245 \<le> unat b then Inl (UnicodeDecodeError b pos ''invalid start byte'')
      else Inl (UnicodeDecodeError b pos ''unexpected end of data''))"
| "utf8_decode_from pos (b # c # bs) =
     (if unat b < 128 then
        (case utf8_decode_from (pos + 1) (c # bs) of
           Inl e \<Rightarrow> Inl e
         | Inr s \<Rightarrow> Inr (char_of (unat b) # s))
      else if unat b < 194 \<or> 245 \<le> unat b then Inl (UnicodeDecodeError b pos ''invalid start byte'')
      else if 196 \<le> unat b then Inl CodePointAboveFF
      else if unat c < 128 \<or> 192 \<le> unat c then
        Inl (UnicodeDecodeError b pos ''invalid continuation byte'')
      else
        (case utf8_decode_from (pos + 2) bs of
           Inl e \<Rightarrow> Inl e
         | Inr s \<Rightarrow> Inr (char_of ((unat b mod 32) * 64 + unat c mod 64) # s)))"

fun universal_newlines :: "string \<Rightarrow> string" where
  "universal_newlines [] = []"
| "universal_newlines [c] = [if c = CR then NL else c]"
| "universal_newlines (c # d # ds) =
     (if c = CR then (if d = NL then NL # universal_newlines ds
                      else NL # universal_newlines (d # ds))
      else c # universal_newlines (d # ds))"

definition os_path_exists :: "filesystem \<Rightarrow> string \<Rightarrow> bool" where
  "os_path_exists fs p = (fs p \<noteq> None)"

definition os_path_join :: "string \<Rightarrow> string \<Rightarrow> string" where
  \<comment> \<open>\<open>os.path.join(a, b)\<close> of posixpath\<close>
  "os_path_join a b =
     (if startswith b ''/'' then b
      else if a = [] \<or> last a = CHR ''/'' then a @ b
      else a @ ''/'' @ b)"

definition os_path_dirname :: "string \<Rightarrow> string" where
  \<comment> \<open>\<open>os.path.dirname(p)\<close> of posixpath; the empty result stands for the working directory\<close>
  "os_path_dirname p =
     (let h = rev (dropWhile (\<lambda>c. c \<noteq> CHR ''/'') (rev p))
      in if h \<noteq> [] \<and> (\<exists>c \<in> set h. c \<noteq> CHR ''/'')
         then rev (dropWhile (\<lambda>c. c = CHR ''/'') (rev h)) else h)"

definition write_text :: "filesystem \<Rightarrow> string \<Rightarrow> string \<Rightarrow> py_exception + filesystem" where
  \<comment> \<open>\<open>with open(p, 'w', encoding='utf-8') as f: f.write(s)\<close>\<close>
  "write_text fs p s =
     (case fs p of
        Some Dir \<Rightarrow> Inl (IsADirectoryError p)
      | _ \<Rightarrow>
        (case fs (os_path_dirname p) of
           Some Dir \<Rightarrow> Inr (fs(p \<mapsto> File (utf8_encode s)))
         | Some (File _) \<Rightarrow> Inl (NotADirectoryError p)
         | None \<Rightarrow> Inl (FileNotFoundError p)))"

definition read_text_at :: "filesystem \<Rightarrow> string \<Rightarrow> nat \<Rightarrow> py_exception + string" where
  \<comment> \<open>\<open>open(p, 'r', encoding='utf-8')\<close>, \<open>f.seek(k)\<close>, then everything \<open>f.read()\<close> would
      return: \<open>seek\<close> positions the underlying byte stream at byte \<open>k\<close>, decoding restarts there\<close>
  "read_text_at fs p k =
     (case fs p of
        None \<Rightarrow> Inl (FileNotFoundError p)
      | Some Dir \<Rightarrow> Inl (IsADirectoryError p)
      | Some (File bs) \<Rightarrow>
        (case utf8_decode_from 0 (drop k bs) of
           Inl e \<Rightarrow> Inl e
         | Inr s \<Rightarrow> Inr (universal_newlines s)))"

section \<open>ContextFileManagerTool\<close>

record agent_state =
  temp_dir :: string
  context_file_path :: "string option"

record world =
  fs :: filesystem
  agent :: "agent_state option"
  gettempdir :: string

record context_arguments =
  action :: "string option"
  context_arg :: "string option"
  chunk_size_arg :: "int entry"
  overlap_arg :: "int entry"

definition save_report :: "string \<Rightarrow> nat \<Rightarrow> nat \<Rightarrow> nat \<Rightarrow> string" where
  \<comment> \<open>the f-string of \<open>_save_context\<close>\<close>
  "save_report context_file file_size lines words =
     ''Context saved successfully!\<newline>File path: '' @ context_file @
     ''\<newline>Statistics:\<newline>- File size: '' @ commas_int (int file_size) @
     '' characters\<newline>- Lines: '' @ commas_int (int lines) @
     ''\<newline>- Words: '' @ commas_int (int words) @
     ''\<newline>- Estimated tokens: '' @ commas_int (int file_size div 4) @
     '' (rough estimate)\<newline>\<newline>The context file is now ready for chunk-based processing.''"

definition save_context :: "world \<Rightarrow> context_arguments \<Rightarrow> py_exception + ToolExecResult \<times> world" where
  "save_context w arguments =
     (case context_arg arguments of
        None \<Rightarrow> Inr (result_error ''Context text is required for save_context action'' 1, w)
      | Some context \<Rightarrow>
        if context = [] then
          Inr (result_error ''Context text is required for save_context action'' 1, w)
        else
          let tdir = (case agent w of Some a \<Rightarrow> temp_dir a | None \<Rightarrow> gettempdir w);
              context_file = os_path_join tdir ''context.txt''
          in (case write_text (fs w) context_file context of
                Inl e \<Rightarrow> Inl e
              | Inr fs' \<Rightarrow>
                let agent' = map_option (\<lambda>a. a\<lparr>context_file_path := Some context_file\<rparr>) (agent w);
                    file_size = length context;
                    lines = count_nl context + 1;
                    words = length (split_ws context)
                in Inr (result_output (save_report context_file file_size lines words),
                        w\<lparr>fs := fs', agent := agent'\<rparr>)))"

definition context_file_of :: "world \<Rightarrow> string" where
  \<comment> \<open>the path \<open>_save_context\<close> writes to: \<open>context.txt\<close> in the agent's \<open>temp_dir\<close>, or in
      \<open>tempfile.gettempdir()\<close> when the tool has no agent\<close>
  "context_file_of w =
     os_path_join (case agent w of Some a \<Rightarrow> temp_dir a | None \<Rightarrow> gettempdir w) ''context.txt''"

definition num_chunks :: "int \<Rightarrow> int \<Rightarrow> int \<Rightarrow> int" where
  \<comment> \<open>\<open>max(1, (total_size - overlap) // (chunk_size - overlap))\<close>; \<open>//\<close> and \<open>div\<close> both round down\<close>
  "num_chunks total_size chunk_size overlap =
     max 1 ((total_size - overlap) div (chunk_size - overlap))"

fun chunk_boundaries_from :: "nat \<Rightarrow> int \<Rightarrow> int \<Rightarrow> int \<Rightarrow> int \<Rightarrow> (int \<times> int \<times> int) list" where
  \<comment> \<open>the loop \<open>for i in range(num_chunks)\<close>, entered at \<open>i\<close> with \<open>k\<close> iterations left; it
      yields \<open>(i, start, end)\<close> for every line it appends and breaks once \<open>end >= total_size\<close>\<close>
  "chunk_boundaries_from 0 i total_size chunk_size overlap = []"
| "chunk_boundaries_from (Suc k) i total_size chunk_size overlap =
     (let start = i * (chunk_size - overlap);
          end' = min (start + chunk_size) total_size
      in (i, start, end') #
         (if end' \<ge> total_size then []
          else chunk_boundaries_from k (i + 1) total_size chunk_size overlap))"

definition chunk_boundaries :: "int \<Rightarrow> int \<Rightarrow> int \<Rightarrow> (int \<times> int \<times> int) list" where
  "chunk_boundaries total_size chunk_size overlap =
     chunk_boundaries_from (nat (num_chunks total_size chunk_size overlap)) 0
       total_size chunk_size overlap"

definition chunk_line :: "int \<times> int \<times> int \<Rightarrow> string" where
  \<comment> \<open>\<open>f"\nChunk {i+1}: {start}:{end}"\<close>\<close>
  "chunk_line b =
     (case b of (i, start, end') \<Rightarrow>
        ''\<newline>Chunk '' @ str_int (i + 1) @ '': '' @ str_int start @ '':'' @ str_int end')"

definition chunk_report :: "string \<Rightarrow> int \<Rightarrow> int \<Rightarrow> int \<Rightarrow> string" where
  \<comment> \<open>the f-string of \<open>_get_chunk_info\<close> followed by the lines the loop appends\<close>
  "chunk_report context_file total_size chunk_size overlap =
     ''Chunk Analysis:\<newline>Context file: '' @ context_file @
     ''\<newline>Total size: '' @ commas_int total_size @
     '' characters\<newline>Chunk size: '' @ commas_int chunk_size @
     '' characters\<newline>Overlap: '' @ commas_int overlap @
     '' characters  \<newline>Estimated chunks: '' @ str_int (num_chunks total_size chunk_size overlap) @
     ''\<newline>\<newline>Chunk boundaries (start:end):'' @
     concat (map chunk_line (chunk_boundaries total_size chunk_size overlap))"

definition minus_none :: "bool \<Rightarrow> py_exception" where
  \<comment> \<open>what \<open>-\<close> raises when its left (\<open>True\<close>) or right operand is \<open>None\<close>\<close>
  "minus_none left =
     TypeError (''unsupported operand type(s) for -: '' @ [CHR 39] @
                (if left then ''NoneType'' else ''int'') @ [CHR 39] @ '' and '' @ [CHR 39] @
                (if left then ''int'' else ''NoneType'') @ [CHR 39])"

definition get_chunk_info :: "world \<Rightarrow> context_arguments \<Rightarrow> py_exception + ToolExecResult \<times> world" where
  "get_chunk_info w arguments =
     (let chunk_size_value = get_or (chunk_size_arg arguments) 8000;
          overlap_value = get_or (overlap_arg arguments) 200;
          no_file = Inr (result_error
            (''No context file found. Please save context first using '' @ [CHR 39] @
             ''save_context'' @ [CHR 39] @ '' action.'') 1, w)
      in case agent w of
           None \<Rightarrow> no_file
         | Some a \<Rightarrow>
           (case context_file_path a of
              None \<Rightarrow> no_file
            | Some context_file \<Rightarrow>
              if context_file = [] then no_file
              else if \<not> os_path_exists (fs w) context_file then
                Inr (result_error (''Context file not found: '' @ context_file) 1, w)
              else
                (case read_text_at (fs w) context_file 0 of
                   Inl e \<Rightarrow> Inl e
                 | Inr content \<Rightarrow>
                   let total_size = int (length content)
                   in (case overlap_value of
                         None \<Rightarrow> Inl (minus_none False)
                       | Some overlap \<Rightarrow>
                         (case chunk_size_value of
                            None \<Rightarrow> Inl (minus_none True)
                          | Some chunk_size \<Rightarrow>
                            if chunk_size - overlap = 0 then Inl ZeroDivisionError
                            else Inr (result_output
                                   (chunk_report context_file total_size chunk_size overlap), w))))))"

definition plan_report :: "int \<Rightarrow> int \<Rightarrow> string" where
  \<comment> \<open>the f-string of \<open>_plan_chunks\<close>\<close>
  "plan_report chunk_size overlap =
     ''Chunking Strategy Planning:\<newline>\<newline>**Recommended Settings:**\<newline>- Chunk size: '' @
     commas_int chunk_size @ '' characters (~'' @ commas_int (chunk_size div 4) @
     '' tokens)\<newline>- Overlap: '' @ commas_int overlap @
     '' characters (to preserve context continuity)\<newline>\<newline>**Semantic Considerations:**\<newline>'' @
     ''1. Try to break at paragraph boundaries when possible\<newline>'' @
     ''2. Maintain context for references and pronouns\<newline>'' @
     ''3. Consider document structure (sections, chapters, etc.)\<newline>'' @
     ''4. Preserve tables and code blocks within single chunks\<newline>\<newline>**Processing Tips:**\<newline>'' @
     ''1. Use meta_prompt_tool to create consistent prompts across chunks\<newline>'' @
     ''2. Design prompts that work well with partial information  \<newline>'' @
     ''3. Plan for result integration and consistency checking\<newline>'' @
     ''4. Consider chunk dependencies for complex reasoning tasks\<newline>\<newline>'' @
     ''Use get_chunk_info action to see exact chunk boundaries before processing.''"

definition format_none :: py_exception where
  \<comment> \<open>what \<open>{x:,}\<close> raises for \<open>None\<close>\<close>
  "format_none = TypeError ''unsupported format string passed to NoneType.__format__''"

definition plan_chunks :: "world \<Rightarrow> context_arguments \<Rightarrow> py_exception + ToolExecResult \<times> world" where
  "plan_chunks w arguments =
     (case (get_or (chunk_size_arg arguments) 8000, get_or (overlap_arg arguments) 200) of
        (Some chunk_size, Some overlap) \<Rightarrow> Inr (result_output (plan_report chunk_size overlap), w)
      | _ \<Rightarrow> Inl format_none)"

definition ContextFileManagerTool_execute :: "world \<Rightarrow> context_arguments \<Rightarrow> ToolExecResult \<times> world" where
  \<comment> \<open>\<open>ContextFileManagerTool.execute\<close>: the dispatch on \<open>action\<close> inside \<open>try\<close>/\<open>except Exception\<close>\<close>
  "ContextFileManagerTool_execute w arguments =
     (let r = (if action arguments = Some ''save_context'' then save_context w arguments
               else if action arguments = Some ''get_chunk_info'' then get_chunk_info w arguments
               else if action arguments = Some ''plan_chunks'' then plan_chunks w arguments
               else Inr (result_error
                      (''Unknown action: '' @
                       (case action arguments of Some a \<Rightarrow> a | None \<Rightarrow> ''None'')) 1, w))
      in case r of
           Inr res \<Rightarrow> res
         | Inl e \<Rightarrow> (result_error (''Error in context_file_manager: '' @ exc_str e) 1, w))"

definition spec_num_chunks :: "int \<Rightarrow> int \<Rightarrow> int \<Rightarrow> int" where
  \<comment> \<open>the specification's count, \<open>max(1, ceil((total_size - overlap) / (chunk_size - overlap)))\<close>\<close>
  "spec_num_chunks total_size chunk_size overlap =
     max 1 (- ((- (total_size - overlap)) div (chunk_size - overlap)))"

definition covered :: "(int \<times> int \<times> int) list \<Rightarrow> int set" where
  \<comment> \<open>the union of the reported ranges \<open>[start, end)\<close>\<close>
  "covered bs = (\<Union>(i, start, end') \<in> set bs. {start ..< end'})"

definition scenario_text :: string where
  "scenario_text = ''Hello world!\<newline>This is line 2.\<newline>Final line.''"

definition scenario_world :: world where
  \<comment> \<open>an agent whose workspace \<open>/t\<close> exists and holds no context yet\<close>
  "scenario_world =
     \<lparr>fs = [''/t'' \<mapsto> Dir],
      agent = Some \<lparr>temp_dir = ''/t'', context_file_path = None\<rparr>,
      gettempdir = ''/tmp''\<rparr>"

definition save_arguments :: "string \<Rightarrow> context_arguments" where
  "save_arguments text =
     \<lparr>action = Some ''save_context'', context_arg = Some text,
      chunk_size_arg = Missing, overlap_arg = Missing\<rparr>"

definition chunk_info_arguments :: "int \<Rightarrow> int \<Rightarrow> context_arguments" where
  "chunk_info_arguments chunk_size overlap =
     \<lparr>action = Some ''get_chunk_info'', context_arg = None,
      chunk_size_arg = Value chunk_size, overlap_arg = Value overlap\<rparr>"

definition agentless_world :: world where
  \<comment> \<open>a tool without agent; the system's temporary directory is \<open>/tmp\<close>\<close>
  "agentless_world = \<lparr>fs = [''/tmp'' \<mapsto> Dir], agent = None, gettempdir = ''/tmp''\<rparr>"

definition alphabet_text :: string where
  "alphabet_text = ''abcdefghijklmnopqrstuvwxy''"

definition alphabet_world :: world where
  \<comment> \<open>the scenario world after saving the 25 characters of \<open>alphabet_text\<close>\<close>
  "alphabet_world =
     snd (ContextFileManagerTool_execute scenario_world (save_arguments alphabet_text))"

section \<open>EnhancedChunkTool: extraction and sanitization\<close>

fun first_index :: "('a \<Rightarrow> bool) \<Rightarrow> 'a list \<Rightarrow> nat option" where
  \<comment> \<open>\<open>for i, line in enumerate(lines): if P(line): idx = i; break\<close>, \<open>None\<close> when no line
      satisfies \<open>P\<close>\<close>
  "first_index P [] = None"
| "first_index P (x # xs) = (if P x then Some 0 else map_option Suc (first_index P xs))"

definition py_index :: "'a list \<Rightarrow> nat \<Rightarrow> py_exception + 'a" where
  \<comment> \<open>\<open>xs[j]\<close> for \<open>j >= 0\<close>: raises IndexError out of range\<close>
  "py_index xs j = (if j < length xs then Inr (xs ! j) else Inl IndexError)"

definition success_marker :: string where
  "success_marker = ''Enhanced Prompt Generated Successfully:''"

definition is_fallback_line :: "string \<Rightarrow> bool" where
  \<comment> \<open>\<open>line.strip() and not line.startswith('Enhanced Prompt') and not line.startswith('---')\<close>\<close>
  "is_fallback_line line =
     (strip line \<noteq> [] \<and> \<not> startswith line ''Enhanced Prompt'' \<and> \<not> startswith line ''---'')"

definition has_success_marker :: "string \<Rightarrow> bool" where
  \<comment> \<open>\<open>'Enhanced Prompt Generated Successfully:' in line\<close>\<close>
  "has_success_marker line = contains line success_marker"

definition is_separator :: "string \<Rightarrow> bool" where
  \<comment> \<open>\<open>line.strip() == '---'\<close>\<close>
  "is_separator line = (strip line = ''---'')"

definition prompt_start_idx :: "string list \<Rightarrow> nat option" where
  \<comment> \<open>the two searches of \<open>_extract_enhanced_prompt\<close>: two lines after the marker line,
      else the first fallback line\<close>
  "prompt_start_idx lines =
     (case first_index has_success_marker lines of
        Some i \<Rightarrow> Some (i + 2)
      | None \<Rightarrow> first_index is_fallback_line lines)"

definition extract_enhanced_prompt_try :: "string \<Rightarrow> py_exception + string" where
  \<comment> \<open>the body of the \<open>try\<close>; a slice \<open>lines[k:]\<close> never raises\<close>
  "extract_enhanced_prompt_try meta_output =
     (let lines = split_nl meta_output
      in case prompt_start_idx lines of
           None \<Rightarrow> Inr (strip meta_output)
         | Some k \<Rightarrow>
           Inr (strip (join_nl (takeWhile (\<lambda>line. \<not> is_separator line) (drop k lines)))))"

definition extract_enhanced_prompt :: "string \<Rightarrow> string" where
  \<comment> \<open>\<open>_extract_enhanced_prompt\<close>: \<open>except Exception: return meta_output.strip()\<close>\<close>
  "extract_enhanced_prompt meta_output =
     (case extract_enhanced_prompt_try meta_output of
        Inr r \<Rightarrow> r
      | Inl e \<Rightarrow> strip meta_output)"

definition has_analysis_marker :: "string \<Rightarrow> bool" where
  \<comment> \<open>\<open>'**Analysis Result:**' in line\<close>\<close>
  "has_analysis_marker line = contains line ''**Analysis Result:**''"

definition has_result_title :: "string \<Rightarrow> bool" where
  \<comment> \<open>\<open>'**Chunk Processing Result**' in line\<close>\<close>
  "has_result_title line = contains line ''**Chunk Processing Result**''"

definition is_content_line :: "string \<Rightarrow> bool" where
  \<comment> \<open>\<open>not line.startswith('**') and line.strip()\<close>\<close>
  "is_content_line line = (\<not> startswith line ''**'' \<and> strip line \<noteq> [])"

fun content_line_from :: "string list \<Rightarrow> nat \<Rightarrow> nat \<Rightarrow> py_exception + nat option" where
  \<comment> \<open>\<open>for j in range(i, len(lines))\<close> entered at \<open>j\<close> with \<open>k\<close> iterations left: the first
      \<open>j\<close> whose line does not start with \<open>**\<close> and is not blank\<close>
  "content_line_from lines j 0 = Inr None"
| "content_line_from lines j (Suc k) =
     (case py_index lines j of
        Inl e \<Rightarrow> Inl e
      | Inr line \<Rightarrow>
        if is_content_line line then Inr (Some j)
        else content_line_from lines (j + 1) k)"

definition result_start_idx :: "string list \<Rightarrow> py_exception + nat option" where
  \<comment> \<open>the two searches of \<open>_clean_chunk_output\<close>\<close>
  "result_start_idx lines =
     (case first_index has_analysis_marker lines of
        Some i \<Rightarrow> Inr (Some (i + 1))
      | None \<Rightarrow>
        (case first_index has_result_title lines of
           Some i \<Rightarrow> content_line_from lines i (length lines - i)
         | None \<Rightarrow> Inr None))"

definition is_stop_line :: "string \<Rightarrow> bool" where
  \<comment> \<open>\<open>line.startswith('---') or '**Processing Status:**' in line or '**Tokens Used:**' in line\<close>\<close>
  "is_stop_line line =
     (startswith line ''---'' \<or> contains line ''**Processing Status:**''
      \<or> contains line ''**Tokens Used:**'')"

definition clean_report :: "string option \<Rightarrow> int \<Rightarrow> int \<Rightarrow> string \<Rightarrow> string" where
  \<comment> \<open>the f-string of \<open>_clean_chunk_output\<close>\<close>
  "clean_report chunk_id start_pos end_pos analysis_content =
     ''**Chunk Analysis Result**\<newline>\<newline>**Chunk:** '' @ str_opt chunk_id @ '' (position '' @
     str_int start_pos @ '':'' @ str_int end_pos @ '')\<newline>**Size:** '' @
     commas_int (end_pos - start_pos) @ '' characters\<newline>\<newline>**Analysis:**\<newline>'' @
     analysis_content @ ''\<newline>\<newline>**Status:** Processing complete''"

definition analysis_from :: "string list \<Rightarrow> nat \<Rightarrow> string" where
  \<comment> \<open>the lines from \<open>k\<close> up to the first stop line, joined and stripped\<close>
  "analysis_from lines k = strip (join_nl (takeWhile (\<lambda>line. \<not> is_stop_line line) (drop k lines)))"

definition clean_chunk_output_try ::
  "string \<Rightarrow> string option \<Rightarrow> int \<Rightarrow> int \<Rightarrow> py_exception + string" where
  \<comment> \<open>the body of the \<open>try\<close>\<close>
  "clean_chunk_output_try chunk_output chunk_id start_pos end_pos =
     (let lines = split_nl chunk_output
      in case result_start_idx lines of
           Inl e \<Rightarrow> Inl e
         | Inr found \<Rightarrow>
           let k = (case found of Some i \<Rightarrow> i | None \<Rightarrow> min 5 (length lines))
           in Inr (clean_report chunk_id start_pos end_pos (analysis_from lines k)))"

definition clean_chunk_output :: "string \<Rightarrow> string option \<Rightarrow> int \<Rightarrow> int \<Rightarrow> string" where
  \<comment> \<open>\<open>_clean_chunk_output\<close>: \<open>except Exception: return chunk_output\<close>\<close>
  "clean_chunk_output chunk_output chunk_id start_pos end_pos =
     (case clean_chunk_output_try chunk_output chunk_id start_pos end_pos of
        Inr r \<Rightarrow> r
      | Inl e \<Rightarrow> chunk_output)"

definition analysis_lines :: "string list \<Rightarrow> string list" where
  \<comment> \<open>the lines \<open>_clean_chunk_output\<close> reads the analysis from, described without indices:
      those after the first line with the analysis marker; failing that, those from the
      first content line at or after the first title line; failing that, all but the first
      \<open>min(5, len(lines))\<close>\<close>
  "analysis_lines lines =
     (if list_ex has_analysis_marker lines
      then drop 1 (dropWhile (\<lambda>l. \<not> has_analysis_marker l) lines)
      else if list_ex is_content_line (dropWhile (\<lambda>l. \<not> has_result_title l) lines)
      then dropWhile (\<lambda>l. \<not> is_content_line l) (dropWhile (\<lambda>l. \<not> has_result_title l) lines)
      else drop (min 5 (length lines)) lines)"

section \<open>MetaPromptTool\<close>

definition meta_report :: "string \<Rightarrow> string \<Rightarrow> string" where
  \<comment> \<open>the f-string of the success result of \<open>MetaPromptTool.execute\<close>\<close>
  "meta_report simple_prompt enhanced_prompt =
     ''Enhanced Prompt Generated Successfully:\<newline>\<newline>'' @ enhanced_prompt @
     ''\<newline>\<newline>---\<newline>Optimization Summary:\<newline>- Original prompt length: '' @
     str_int (int (length simple_prompt)) @
     '' characters  \<newline>- Enhanced prompt length: '' @ str_int (int (length enhanced_prompt)) @
     '' characters\<newline>- Optimized for chunk-based processing: Yes\<newline>'' @
     ''- CoT complexity reduction: Applied''"

text \<open>
  The model client is consumed through \<open>chat(messages, model_config, [])\<close> only. It is a
  function of the messages: the call raises, or it returns a response whose content is a
  string or missing (a missing response and a missing content are both \<open>None\<close> here).
  The configuration each tool builds for its call is part of the client's side and is not
  modelled.
\<close>

record LLMMessage =
  role :: string
  content :: string

datatype chat_outcome = ChatRaises py_exception | ChatReturns "string option"

type_synonym llm_client = "LLMMessage list \<Rightarrow> chat_outcome"

definition META_PROMPT_SYSTEM_PROMPT :: string where
  "META_PROMPT_SYSTEM_PROMPT =
     ''You are an expert prompt engineer specializing in optimizing prompts for sub-agent chunk processing in long context scenarios.\<newline>\<newline>'' @
     ''**Your Core Objectives:**\<newline>'' @
     ''1. **Maximize Output Efficiency**: Design prompts that produce concise, essential information only\<newline>'' @
     ''2. **Optimize for Partial Data**: Ensure prompts work effectively with incomplete/fragmented input chunks\<newline>'' @
     ''3. **Enable Independent Processing**: Each chunk must be processable without requiring context from other chunks\<newline>'' @
     ''4. **Minimize Reasoning Overhead**: Create prompts that require minimal reasoning steps per chunk\<newline>'' @
     ''5. **Ensure Result Aggregation**: Design outputs that can be easily combined across multiple chunks\<newline>\<newline>'' @
     ''**Critical Constraints for Sub-Agent Chunk Processing:**\<newline>'' @
     ''- **Input Reality**: The sub-agent receives ONLY a text fragment, not complete documents\<newline>'' @
     ''- **Output Brevity**: Responses must be concise and focused on extracting key information\<newline>'' @
     ''- **Partial Information Handling**: Prompts must gracefully handle incomplete data without speculation\<newline>'' @
     ''- **Consistency Requirements**: Analysis approach must remain uniform across all chunks\<newline>'' @
     ''- **Integration Design**: Outputs should facilitate easy synthesis into final results\<newline>\<newline>'' @
     ''**Prompt Enhancement Guidelines:**\<newline>'' @
     ''- **Simplify Instructions**: Remove unnecessary complexity that doesn'' @ [CHR 39] @ ''t serve chunk-level processing\<newline>'' @
     ''- **Add Chunk-Specific Context**: Include guidance for handling fragment-level information\<newline>'' @
     ''- **Emphasize Conciseness**: Explicitly instruct for brief, focused outputs\<newline>'' @
     ''- **Handle Boundaries**: Address how to process content that may be cut mid-sentence or mid-concept\<newline>'' @
     ''- **Specify Output Constraints**: Define exact output format and length limits\<newline>'' @
     ''- **Reduce Cognitive Load**: Design for fast, efficient processing without deep reasoning chains\<newline>\<newline>'' @
     ''**Special Instructions for Enhanced Prompts:**\<newline>'' @
     ''- Include explicit instructions to '' @ [CHR 34] @ ''focus only on information available in this chunk'' @ [CHR 34] @ ''\<newline>'' @
     ''- Add output length constraints (e.g., '' @ [CHR 34] @ ''respond in 2-3 sentences maximum'' @ [CHR 34] @ '')\<newline>'' @
     ''- Specify how to handle incomplete information (e.g., '' @ [CHR 34] @ ''if information is partial, note limitations'' @ [CHR 34] @ '')\<newline>'' @
     ''- Emphasize extraction over interpretation to maintain consistency\<newline>'' @
     ''- Design for parallel processing where chunks can be analyzed simultaneously\<newline>\<newline>'' @
     ''Return ONLY the enhanced prompt without explanations or meta-commentary.''"

record meta_arguments =
  meta_simple_prompt :: "string option"
  meta_task_context :: "string option"

definition meta_user_message :: "string \<Rightarrow> string \<Rightarrow> string" where
  "meta_user_message simple_prompt task_context =
     ''Transform this simple prompt into a high-quality, detailed prompt optimized for chunk-based processing:\<newline>\<newline>Simple Prompt: '' @
     simple_prompt @
     (if task_context \<noteq> [] then ''\<newline>\<newline>Task or Goal: '' @ task_context else [])"

definition MetaPromptTool_execute :: "llm_client option \<Rightarrow> meta_arguments \<Rightarrow> ToolExecResult" where
  "MetaPromptTool_execute client arguments =
     (let simple_prompt = (case meta_simple_prompt arguments of Some p \<Rightarrow> p | None \<Rightarrow> []);
          task_context = (case meta_task_context arguments of Some c \<Rightarrow> c | None \<Rightarrow> [])
      in if simple_prompt = [] then result_error ''simple_prompt is required'' 1
         else case client of
           None \<Rightarrow> result_error ''LLM client not available for meta_prompt_tool'' 1
         | Some chat \<Rightarrow>
           (case chat [\<lparr>role = ''system'', content = META_PROMPT_SYSTEM_PROMPT\<rparr>,
                       \<lparr>role = ''user'', content = meta_user_message simple_prompt task_context\<rparr>] of
              ChatRaises e \<Rightarrow> result_error (''Error generating meta prompt: '' @ exc_str e) 1
            | ChatReturns None \<Rightarrow> result_error ''Failed to generate enhanced prompt'' 1
            | ChatReturns (Some response_content) \<Rightarrow>
              if response_content = [] then result_error ''Failed to generate enhanced prompt'' 1
              else result_output (meta_report simple_prompt (strip response_content))))"

section \<open>TextChunkTool\<close>

record chunk_arguments =
  file_path :: "string option"
  start_pos :: "int option"
  end_pos :: "int option"
  query :: "string option"
  enhanced_prompt :: "string option"
  chunk_id :: "string entry"

definition str_opt_int :: "int option \<Rightarrow> string" where
  \<comment> \<open>\<open>{x}\<close> in an f-string for an integer that may be \<open>None\<close>\<close>
  "str_opt_int x = (case x of Some i \<Rightarrow> str_int i | None \<Rightarrow> ''None'')"

definition default_chunk_id :: "int option \<Rightarrow> int option \<Rightarrow> string" where
  \<comment> \<open>\<open>f"chunk_{start_pos}_{end_pos}"\<close>\<close>
  "default_chunk_id s e = ''chunk_'' @ str_opt_int s @ ''_'' @ str_opt_int e"

definition truthy :: "string option \<Rightarrow> bool" where
  \<comment> \<open>the truth value of a string argument: present and not empty\<close>
  "truthy x = (case x of Some s \<Rightarrow> s \<noteq> [] | None \<Rightarrow> False)"

definition read_chunk :: "filesystem \<Rightarrow> string \<Rightarrow> int \<Rightarrow> int \<Rightarrow> py_exception + string" where
  \<comment> \<open>\<open>with open(file_path, 'r', encoding='utf-8') as f: f.seek(start_pos);
      chunk_text = f.read(end_pos - start_pos)\<close>\<close>
  "read_chunk files p s e =
     (case read_text_at files p (nat s) of
        Inl ex \<Rightarrow> Inl ex
      | Inr text \<Rightarrow> Inr (take (nat (e - s)) text))"

definition chunk_system_prompt :: string where
  "chunk_system_prompt =
     ''You are an expert text analysis agent specialized in processing text chunks as part of a larger long-context analysis task.\<newline>\<newline>'' @
     ''**Key Guidelines:**\<newline>'' @
     ''- Focus exclusively on the provided text chunk\<newline>'' @
     ''- Answer based solely on information available in this chunk\<newline>'' @
     ''- If information is not available in this chunk, clearly state this limitation\<newline>'' @
     ''- Maintain objectivity and accuracy in your analysis\<newline>'' @
     ''- Follow the enhanced prompt instructions precisely\<newline>'' @
     ''- Be concise but thorough in your response\<newline>'' @
     ''- Consider that this chunk is part of a larger document\<newline>'' @
     ''- Format your response for easy integration with other chunk results\<newline>\<newline>'' @
     ''**Important:** This is a partial view of a larger text. Focus on extracting and analyzing information present in this specific chunk while acknowledging the partial nature of the context.''"

definition chunk_user_message :: "string \<Rightarrow> string \<Rightarrow> string \<Rightarrow> int \<Rightarrow> int \<Rightarrow> string \<Rightarrow> string" where
  "chunk_user_message enhanced q cid s e chunk_text =
     ''**Enhanced Instructions:** '' @ enhanced @
     ''\<newline>\<newline>**Query to Answer:** '' @ q @
     ''\<newline>\<newline>**Text Chunk Information:**\<newline>- Chunk ID: '' @ cid @
     ''\<newline>- Position: '' @ str_int s @ '':'' @ str_int e @
     ''\<newline>- Size: '' @ str_int (int (length chunk_text)) @
     '' characters\<newline>\<newline>**Text Chunk Content:**\<newline>'' @ chunk_text @
     ''\<newline>\<newline>---\<newline>\<newline>Please process this text chunk according to the enhanced instructions and answer the query. Remember that this is only a partial view of a larger document.''"

definition chunk_result_report :: "string \<Rightarrow> int \<Rightarrow> int \<Rightarrow> string \<Rightarrow> string \<Rightarrow> string \<Rightarrow> string" where
  \<comment> \<open>the f-string of the success result of \<open>TextChunkTool.execute\<close>\<close>
  "chunk_result_report cid s e q chunk_text response_content =
     ''**Chunk Processing Result**\<newline>\<newline>**Chunk Info:** '' @ cid @ '' (position '' @
     str_int s @ '':'' @ str_int e @ '')\<newline>**Query:** '' @ q @
     ''\<newline>**Chunk Size:** '' @ commas_int (int (length chunk_text)) @
     '' characters\<newline>\<newline>**Analysis Result:**\<newline>'' @ strip response_content @
     ''\<newline>\<newline>---\<newline>**Processing Status:** Complete\<newline>**Tokens Used:** ~'' @
     str_int (int (length chunk_text) div 4) @ '' input + ~'' @
     str_int (int (length response_content) div 4) @ '' output''"

definition TextChunkTool_execute ::
  "filesystem \<Rightarrow> llm_client option \<Rightarrow> chunk_arguments \<Rightarrow> ToolExecResult" where
  "TextChunkTool_execute files client arguments =
     (let cid = str_opt (get_or (chunk_id arguments)
                           (default_chunk_id (start_pos arguments) (end_pos arguments)))
      in case (file_path arguments, start_pos arguments, end_pos arguments,
               query arguments, enhanced_prompt arguments) of
           (Some p, Some s, Some e, Some q, Some enhanced) \<Rightarrow>
             if p = [] \<or> q = [] \<or> enhanced = [] then
               result_error ''Required parameters: file_path, start_pos, end_pos, query, enhanced_prompt'' 1
             else if s < 0 \<or> e \<le> s then
               result_error ''Invalid position range: start_pos must be >= 0 and end_pos must be > start_pos'' 1
             else (case client of
               None \<Rightarrow> result_error ''LLM client not available for text_chunk_tool'' 1
             | Some chat \<Rightarrow>
               if \<not> os_path_exists files p then result_error (''File not found: '' @ p) 1
               else (case read_chunk files p s e of
                 Inl ex \<Rightarrow> result_error (''Error processing text chunk: '' @ exc_str ex) 1
               | Inr chunk_text \<Rightarrow>
                 if strip chunk_text = [] then
                   result_error (''No content found in range '' @ str_int s @ '':'' @ str_int e) 1
                 else (case chat [\<lparr>role = ''system'', content = chunk_system_prompt\<rparr>,
                                  \<lparr>role = ''user'',
                                   content = chunk_user_message enhanced q cid s e chunk_text\<rparr>] of
                   ChatRaises ex \<Rightarrow> result_error (''Error processing text chunk: '' @ exc_str ex) 1
                 | ChatReturns None \<Rightarrow> result_error ''Failed to process text chunk'' 1
                 | ChatReturns (Some response_content) \<Rightarrow>
                   if response_content = [] then result_error ''Failed to process text chunk'' 1
                   else result_output
                          (chunk_result_report cid s e q chunk_text response_content))))
         | _ \<Rightarrow> result_error ''Required parameters: file_path, start_pos, end_pos, query, enhanced_prompt'' 1)"

definition slice :: "string \<Rightarrow> int \<Rightarrow> int \<Rightarrow> string" where
  \<comment> \<open>\<open>text[s:e]\<close> for \<open>0 <= s\<close> and \<open>0 <= e\<close>\<close>
  "slice text s e = take (nat e - nat s) (drop (nat s) text)"

section \<open>EnhancedChunkTool\<close>

text \<open>
  The orchestrator holds the client and two internal tools, which \<open>__init__\<close> creates
  when a client is given. The fields are functions, so that a test double can stand in
  for either tool as in the repository's tests; a call of an internal tool returns a
  result or raises. \<open>execute\<close> returns its result together with the calls it made to the
  internal tools, in order.
\<close>

record enhanced_arguments =
  in_file_path :: "string option"
  in_start_pos :: "int option"
  in_end_pos :: "int option"
  in_query :: "string option"
  in_simple_prompt :: "string option"
  in_task_context :: "string entry"
  in_chunk_id :: "string entry"

record EnhancedChunkTool =
  llm_client :: "llm_client option"
  meta_tool :: "(meta_arguments \<Rightarrow> py_exception + ToolExecResult) option"
  chunk_tool :: "(chunk_arguments \<Rightarrow> py_exception + ToolExecResult) option"

datatype internal_call = MetaExecute meta_arguments | ChunkExecute chunk_arguments

definition EnhancedChunkTool_init :: "filesystem \<Rightarrow> llm_client option \<Rightarrow> EnhancedChunkTool" where
  \<comment> \<open>\<open>__init__\<close>; the internal chunk tool reads the files of the given file system\<close>
  "EnhancedChunkTool_init files client =
     \<lparr>llm_client = client,
      meta_tool = (case client of
                     Some c \<Rightarrow> Some (\<lambda>a. Inr (MetaPromptTool_execute client a))
                   | None \<Rightarrow> None),
      chunk_tool = (case client of
                      Some c \<Rightarrow> Some (\<lambda>a. Inr (TextChunkTool_execute files client a))
                    | None \<Rightarrow> None)\<rparr>"

definition is_chunk_call :: "internal_call \<Rightarrow> bool" where
  "is_chunk_call c = (case c of ChunkExecute a \<Rightarrow> True | MetaExecute a \<Rightarrow> False)"

definition chunk_id_of :: "enhanced_arguments \<Rightarrow> string option" where
  \<comment> \<open>\<open>arguments.get("chunk_id", f"chunk_{start_pos}_{end_pos}")\<close>\<close>
  "chunk_id_of arguments =
     get_or (in_chunk_id arguments)
       (default_chunk_id (in_start_pos arguments) (in_end_pos arguments))"

definition entry_of :: "'a option \<Rightarrow> 'a entry" where
  \<comment> \<open>a dictionary entry \<open>key: x\<close> for a value that may be \<open>None\<close>\<close>
  "entry_of x = (case x of Some v \<Rightarrow> Value v | None \<Rightarrow> NoneValue)"

definition meta_args_of :: "enhanced_arguments \<Rightarrow> meta_arguments" where
  \<comment> \<open>the dictionary \<open>meta_args\<close>, with \<open>arguments.get("task_context", "")\<close>\<close>
  "meta_args_of arguments =
     \<lparr>meta_simple_prompt = in_simple_prompt arguments,
      meta_task_context = get_or (in_task_context arguments) []\<rparr>"

definition chunk_args_of :: "enhanced_arguments \<Rightarrow> string \<Rightarrow> chunk_arguments" where
  \<comment> \<open>the dictionary \<open>chunk_args\<close> for the extracted prompt\<close>
  "chunk_args_of arguments extracted =
     \<lparr>file_path = in_file_path arguments,
      start_pos = in_start_pos arguments, end_pos = in_end_pos arguments,
      query = in_query arguments,
      enhanced_prompt = Some extracted,
      chunk_id = entry_of (chunk_id_of arguments)\<rparr>"

definition arguments_valid :: "enhanced_arguments \<Rightarrow> bool" where
  \<comment> \<open>\<open>all([file_path, isinstance(start_pos, int), isinstance(end_pos, int), query,
      simple_prompt])\<close>\<close>
  "arguments_valid arguments =
     (truthy (in_file_path arguments) \<and> in_start_pos arguments \<noteq> None
      \<and> in_end_pos arguments \<noteq> None \<and> truthy (in_query arguments)
      \<and> truthy (in_simple_prompt arguments))"

definition none_has_no_strip :: py_exception where
  \<comment> \<open>what \<open>_extract_enhanced_prompt(None)\<close> raises from its \<open>except\<close> branch\<close>
  "none_has_no_strip =
     AttributeError ([CHR 39] @ ''NoneType'' @ [CHR 39] @ '' object has no attribute '' @
                     [CHR 39] @ ''strip'' @ [CHR 39])"

definition EnhancedChunkTool_execute ::
  "EnhancedChunkTool \<Rightarrow> enhanced_arguments \<Rightarrow> ToolExecResult \<times> internal_call list" where
  "EnhancedChunkTool_execute tool arguments =
     (if llm_client tool = None then
        (result_error ''LLM client not available for enhanced_chunk_tool'' 1, [])
      else case (meta_tool tool, chunk_tool tool) of
        (Some meta, Some chunk) \<Rightarrow>
          if \<not> arguments_valid arguments then
            (result_error
               ''Required parameters: file_path, start_pos, end_pos, query, simple_prompt'' 1, [])
          else
            let meta_args = meta_args_of arguments
            in (case meta meta_args of
                  Inl ex \<Rightarrow>
                    (result_error (''Enhanced chunk processing failed: '' @ exc_str ex) 1,
                     [MetaExecute meta_args])
                | Inr meta_result \<Rightarrow>
                  (case error meta_result of
                     Some err \<Rightarrow>
                       (result_error (''Internal prompt enhancement failed: '' @ err) 1,
                        [MetaExecute meta_args])
                   | None \<Rightarrow>
                     (case output meta_result of
                        None \<Rightarrow>
                          (result_error
                             (''Enhanced chunk processing failed: '' @ exc_str none_has_no_strip) 1,
                           [MetaExecute meta_args])
                      | Some meta_output \<Rightarrow>
                        let chunk_args = chunk_args_of arguments (extract_enhanced_prompt meta_output);
                            calls = [MetaExecute meta_args, ChunkExecute chunk_args]
                        in (case chunk chunk_args of
                              Inl ex \<Rightarrow>
                                (result_error
                                   (''Enhanced chunk processing failed: '' @ exc_str ex) 1, calls)
                            | Inr chunk_result \<Rightarrow>
                              (case error chunk_result of
                                 Some err \<Rightarrow>
                                   (result_error (''Internal chunk processing failed: '' @ err)
                                      (error_code chunk_result), calls)
                               | None \<Rightarrow>
                                 (case output chunk_result of
                                    None \<Rightarrow>
                                      (\<lparr>output = None, error = None, error_code = 0\<rparr>, calls)
                                  | Some chunk_output \<Rightarrow>
                                      (result_output
                                         (clean_chunk_output chunk_output (chunk_id_of arguments)
                                            (the (in_start_pos arguments))
                                            (the (in_end_pos arguments))), calls)))))))
      | _ \<Rightarrow> (result_error ''Internal tools not properly initialized'' 1, []))"

definition runs :: "EnhancedChunkTool \<Rightarrow> enhanced_arguments \<Rightarrow> bool" where
  \<comment> \<open>the invocation passes the checks that precede the enhancement stage\<close>
  "runs tool arguments =
     (llm_client tool \<noteq> None \<and> meta_tool tool \<noteq> None \<and> chunk_tool tool \<noteq> None
      \<and> arguments_valid arguments)"

definition test_arguments :: enhanced_arguments where
  "test_arguments =
     \<lparr>in_file_path = Some ''/t/context.txt'', in_start_pos = Some 0, in_end_pos = Some 10,
      in_query = Some ''test query'', in_simple_prompt = Some ''test prompt'',
      in_task_context = Missing, in_chunk_id = Missing\<rparr>"

definition silent_client :: llm_client where
  \<comment> \<open>a client whose calls return no content\<close>
  "silent_client = (\<lambda>messages. ChatReturns None)"

definition long_prompt :: string where
  \<comment> \<open>a synthetic instruction of 200 characters\<close>
  "long_prompt = replicate 200 (CHR ''a'')"

definition echoing_client :: llm_client where
  \<comment> \<open>a client that answers the enhancement request with \<open>long_prompt\<close> and, asked to
      analyse a chunk, repeats its instructions in full\<close>
  "echoing_client = (\<lambda>messages. ChatReturns (Some long_prompt))"

definition chunk_stage_result ::
  "enhanced_arguments \<Rightarrow> py_exception + ToolExecResult \<Rightarrow> ToolExecResult" where
  \<comment> \<open>what \<open>execute\<close> returns once the chunk tool has returned or raised \<open>r\<close>\<close>
  "chunk_stage_result arguments r =
     (case r of
         Inl ex \<Rightarrow> result_error (''Enhanced chunk processing failed: '' @ exc_str ex) 1
       | Inr chunk_result \<Rightarrow>
         (case error chunk_result of
            Some err \<Rightarrow> result_error (''Internal chunk processing failed: '' @ err)
                          (error_code chunk_result)
          | None \<Rightarrow>
            (case output chunk_result of
               None \<Rightarrow> \<lparr>output = None, error = None, error_code = 0\<rparr>
             | Some chunk_output \<Rightarrow>
                 result_output (clean_chunk_output chunk_output (chunk_id_of arguments)
                    (the (in_start_pos arguments)) (the (in_end_pos arguments))))))"

definition echo_tool :: EnhancedChunkTool where
  \<comment> \<open>the orchestrator as \<open>__init__\<close> builds it, over the files of \<open>alphabet_world\<close>\<close>
  "echo_tool = EnhancedChunkTool_init (fs alphabet_world) (Some echoing_client)"

definition accented_text :: string where
  \<comment> \<open>the three characters U+00E9, a, b\<close>
  "accented_text = [CHR 0xE9, CHR ''a'', CHR ''b'']"

definition accented_world :: world where
  \<comment> \<open>the scenario world after saving \<open>accented_text\<close>\<close>
  "accented_world =
     snd (ContextFileManagerTool_execute scenario_world (save_arguments accented_text))"

definition parrot_client :: llm_client where
  \<comment> \<open>a client that answers with the user message it was sent\<close>
  "parrot_client = (\<lambda>messages. ChatReturns (Some (content (last messages))))"

definition third_character_arguments :: chunk_arguments where
  "third_character_arguments =
     \<lparr>file_path = Some ''/t/context.txt'', start_pos = Some 2, end_pos = Some 3,
      query = Some ''What is here?'', enhanced_prompt = Some ''Quote the chunk.'',
      chunk_id = Missing\<rparr>"

definition is_ascii :: "string \<Rightarrow> bool" where
  "is_ascii s = (\<forall>c \<in> set s. (of_char c :: nat) < 128)"

section \<open>LongContextAgent\<close>

text \<open>
  The agent owns the workspace directory that \<open>__init__\<close> creates with
  \<open>tempfile.mkdtemp(prefix="long_context_")\<close>; the argument \<open>name\<close> is the part of the
  directory name that \<open>mkdtemp\<close> picks. The control loop \<open>BaseAgent.execute_task\<close> is
  not part of this development: it is a parameter that takes the world, may change it
  through the tools it runs, and returns an execution or raises.
\<close>

record AgentExecution =
  success :: bool
  final_result :: "string option"

datatype task_outcome = TaskReturns AgentExecution | TaskRaises py_exception

type_synonym control_loop = "world \<Rightarrow> task_outcome \<times> world"

definition LongContextAgent_init :: "world \<Rightarrow> string \<Rightarrow> world" where
  "LongContextAgent_init w name =
     (let d = os_path_join (gettempdir w) (''long_context_'' @ name)
      in w\<lparr>fs := (fs w)(d \<mapsto> Dir),
           agent := Some \<lparr>temp_dir = d, context_file_path = None\<rparr>\<rparr>)"

definition is_under :: "string \<Rightarrow> string \<Rightarrow> bool" where
  \<comment> \<open>\<open>p\<close> is \<open>d\<close> or a path below \<open>d\<close>\<close>
  "is_under d p = (p = d \<or> startswith p (d @ ''/''))"

definition remains :: "filesystem \<Rightarrow> string list \<Rightarrow> string \<Rightarrow> bool" where
  \<comment> \<open>\<open>locked\<close> lists the paths whose removal fails. An entry stays when its own removal
      fails or when it is a directory with an entry below it that stays\<close>
  "remains files locked p = list_ex (\<lambda>q. files q \<noteq> None \<and> is_under p q) locked"

definition rmtree :: "filesystem \<Rightarrow> string list \<Rightarrow> string \<Rightarrow> filesystem" where
  \<comment> \<open>\<open>shutil.rmtree(d, ignore_errors=True)\<close>: removes what it can of the directory and of
      everything below it and passes over every removal that fails; on a path that is not a
      directory the error is ignored and nothing is removed\<close>
  "rmtree files locked d =
     (if files d = Some Dir
      then (\<lambda>p. if is_under d p \<and> \<not> remains files locked p then None else files p)
      else files)"

definition cleanup_temp_files :: "string list \<Rightarrow> world \<Rightarrow> world" where
  \<comment> \<open>\<open>_cleanup_temp_files\<close>, where \<open>locked\<close> are the paths whose removal fails\<close>
  "cleanup_temp_files locked w =
     (case agent w of
        None \<Rightarrow> w
      | Some a \<Rightarrow>
        if os_path_exists (fs w) (temp_dir a)
        then w\<lparr>fs := rmtree (fs w) locked (temp_dir a)\<rparr> else w)"

definition execute_task :: "control_loop \<Rightarrow> string list \<Rightarrow> world \<Rightarrow> task_outcome \<times> world" where
  \<comment> \<open>\<open>LongContextAgent.execute_task\<close>: the control loop, then the cleanup; an exception of
      the loop leaves the method at the \<open>await\<close>\<close>
  "execute_task base_execute_task locked w =
     (case base_execute_task w of
        (TaskRaises ex, w') \<Rightarrow> (TaskRaises ex, w')
      | (TaskReturns execution, w') \<Rightarrow> (TaskReturns execution, cleanup_temp_files locked w'))"

definition bare_world :: world where
  "bare_world = \<lparr>fs = [''/tmp'' \<mapsto> Dir], agent = None, gettempdir = ''/tmp''\<rparr>"

definition agent_world :: world where
  \<comment> \<open>a fresh agent whose workspace is \<open>/tmp/long_context_ab12\<close>\<close>
  "agent_world = LongContextAgent_init bare_world ''ab12''"

definition raising_loop :: control_loop where
  \<comment> \<open>a control loop that is interrupted by an exception\<close>
  "raising_loop = (\<lambda>w. (TaskRaises (OtherException ''interrupted''), w))"

definition failing_loop :: control_loop where
  \<comment> \<open>a control loop that saves a context and then reports failure\<close>
  "failing_loop =
     (\<lambda>w. (TaskReturns \<lparr>success = False, final_result = Some ''Agent execution failed''\<rparr>,
           snd (ContextFileManagerTool_execute w (save_arguments ''some context''))))"

definition after_failing_loop :: world where
  \<comment> \<open>the world in which \<open>failing_loop\<close> returns when started in \<open>agent_world\<close>\<close>
  "after_failing_loop =
     snd (ContextFileManagerTool_execute agent_world (save_arguments ''some context''))"

section \<open>Verification: the context store\<close>

lemma scenario_numbers:
  "length scenario_text = 40" "count_nl scenario_text = 2" "length (split_ws scenario_text) = 8"
  by (simp_all add: scenario_text_def count_nl_def split_ws_def isspace_def)

text \<open>
  C7, as stated: saving \<open>"Hello world!\nThis is line 2.\nFinal line."\<close> reports
  \<open>lines=3\<close>, \<open>words=8\<close>, \<open>characters=41\<close>. The text has 40 characters
  (12 + 1 + 15 + 1 + 11), and the report of the save says 40: the report with 41 is not
  the one the tool returns.
\<close>

theorem save_scenario_not_41:
  "output (fst (ContextFileManagerTool_execute scenario_world (save_arguments scenario_text)))
     \<noteq> Some (save_report ''/t/context.txt'' 41 3 8)"
  by code_simp

text \<open>
  C7, amended: for every successful save (an invocation with action \<open>save_context\<close> and a
  context whose result carries no error), by a tool with or without an agent, the report
  names the file written and carries the length of the text as character count, the number
  of newlines plus one as line count and the number of whitespace-delimited tokens as word
  count; for the scenario text these are 40, 3 and 8.
\<close>

theorem save_context_statistics:
  assumes "action arguments = Some ''save_context''"
    and "context_arg arguments = Some context"
    and "error (fst (ContextFileManagerTool_execute w arguments)) = None"
  shows "output (fst (ContextFileManagerTool_execute w arguments)) =
           Some (save_report (context_file_of w)
                   (length context) (count_nl context + 1) (length (split_ws context)))
         \<and> length scenario_text = 40 \<and> count_nl scenario_text + 1 = 3
         \<and> length (split_ws scenario_text) = 8"
proof -
  have "output (fst (ContextFileManagerTool_execute w arguments)) =
           Some (save_report (context_file_of w)
                   (length context) (count_nl context + 1) (length (split_ws context)))"
  proof (cases "context = []")
    case True
    with assms show ?thesis
      by (simp add: ContextFileManagerTool_execute_def save_context_def result_error_def)
  next
    case False
    show ?thesis
    proof (cases "write_text (fs w) (context_file_of w) context")
      case (Inl e)
      with assms False show ?thesis
        by (simp add: ContextFileManagerTool_execute_def save_context_def result_error_def
            context_file_of_def Let_def)
    next
      case (Inr files)
      with assms False show ?thesis
        by (simp add: ContextFileManagerTool_execute_def save_context_def result_output_def
            context_file_of_def Let_def)
    qed
  qed
  then show ?thesis by (simp add: scenario_numbers)
qed

lemma scenario_save_succeeds:
  "error (fst (ContextFileManagerTool_execute scenario_world (save_arguments scenario_text))) = None"
  by code_simp

lemma agentless_save_succeeds:
  "error (fst (ContextFileManagerTool_execute agentless_world (save_arguments scenario_text))) = None"
  by code_simp

theorem save_context_statistics_witness:
  "output (fst (ContextFileManagerTool_execute scenario_world (save_arguments scenario_text))) =
     Some (save_report ''/t/context.txt'' 40 3 8) \<and>
   output (fst (ContextFileManagerTool_execute agentless_world (save_arguments scenario_text))) =
     Some (save_report ''/tmp/context.txt'' 40 3 8)"
proof -
  have a: "action (save_arguments scenario_text) = Some ''save_context''"
    and c: "context_arg (save_arguments scenario_text) = Some scenario_text"
    by (simp_all add: save_arguments_def)
  have p1: "context_file_of scenario_world = ''/t/context.txt''"
    by (simp add: context_file_of_def scenario_world_def os_path_join_def)
  have p2: "context_file_of agentless_world = ''/tmp/context.txt''"
    by (simp add: context_file_of_def agentless_world_def os_path_join_def)
  from save_context_statistics [OF a c scenario_save_succeeds]
       save_context_statistics [OF a c agentless_save_succeeds]
  show ?thesis by (simp add: p1 p2 scenario_numbers)
qed

text \<open>
  C2: \<open>get_chunk_info\<close> is claimed to report \<open>max(1, ceil((total_size - overlap) /
  (chunk_size - overlap)))\<close> chunks. The code divides with \<open>//\<close>, which rounds down. For a
  saved context of 25 characters, \<open>chunk_size = 10\<close> and \<open>overlap = 2\<close> the report says
  2 chunks and lists two boundaries, where the claimed count is 3.
\<close>

theorem get_chunk_info_reports_floor:
  "length alphabet_text = 25 \<and>
   output (fst (ContextFileManagerTool_execute alphabet_world (chunk_info_arguments 10 2))) =
     Some (''Chunk Analysis:\<newline>Context file: /t/context.txt\<newline>Total size: 25 characters\<newline>'' @
           ''Chunk size: 10 characters\<newline>Overlap: 2 characters  \<newline>Estimated chunks: 2\<newline>\<newline>'' @
           ''Chunk boundaries (start:end):\<newline>Chunk 1: 0:10\<newline>Chunk 2: 8:18'') \<and>
   spec_num_chunks 25 10 2 = 3"
  by code_simp

text \<open>
  C3: the boundary list is claimed to cover \<open>[0, total_size)\<close> and to end at
  \<open>total_size\<close>. The loop runs \<open>num_chunks\<close> times at most, so with the count rounded
  down it stops before the end of the text: for 25 characters, \<open>chunk_size = 10\<close> and
  \<open>overlap = 2\<close> the list is \<open>0:10, 8:18\<close>, and the characters 18 to 24 are in no chunk.
\<close>

theorem chunk_boundaries_stop_short:
  "output (fst (ContextFileManagerTool_execute alphabet_world (chunk_info_arguments 10 2))) =
     Some (chunk_report ''/t/context.txt'' 25 10 2) \<and>
   chunk_boundaries 25 10 2 = [(0, 0, 10), (1, 8, 18)] \<and>
   covered (chunk_boundaries 25 10 2) = {0 ..< 18} \<and>
   covered (chunk_boundaries 25 10 2) \<noteq> {0 ..< 25}"
proof -
  have a: "output (fst (ContextFileManagerTool_execute alphabet_world (chunk_info_arguments 10 2))) =
     Some (chunk_report ''/t/context.txt'' 25 10 2)"
    by code_simp
  have b: "chunk_boundaries 25 10 2 = [(0, 0, 10), (1, 8, 18)]"
    by code_simp
  have c: "covered [(0, 0, 10), (1, 8, 18)] = {0 ..< (18::int)}"
    by (auto simp: covered_def)
  have "(20::int) \<in> {0 ..< 25}" "(20::int) \<notin> {0 ..< 18}" by simp_all
  then have "{0 ..< (18::int)} \<noteq> {0 ..< 25}" by blast
  with a b c show ?thesis by simp
qed

subsection \<open>What the boundary loop covers\<close>

text \<open>
  For \<open>0 \<le> overlap < chunk_size\<close> the listed ranges are contiguous from 0, and the
  list ends where the loop bound lets it end. With the count rounded down the end is
  reached only when the division is exact or the text fits in one chunk; with the count
  rounded up the same loop covers the whole text.
\<close>

lemma covered_Cons: "covered ((i, s, e) # bs) = {s ..< e} \<union> covered bs"
  by (simp add: covered_def)

lemma covered_Nil: "covered [] = {}"
  by (simp add: covered_def)

lemma covered_loop:
  assumes "0 \<le> ov" "ov < c" "0 < k" "i * (c - ov) < T"
  shows "covered (chunk_boundaries_from k i T c ov) =
           {i * (c - ov) ..< min T ((i + int k - 1) * (c - ov) + c)}"
  using assms
proof (induction k arbitrary: i)
  case 0
  then show ?case by simp
next
  case (Suc k)
  let ?s = "c - ov"
  have spos: "0 < ?s" using Suc.prems by simp
  show ?case
  proof (cases "T \<le> i * ?s + c")
    case True
    have "i * ?s + c \<le> (i + int (Suc k) - 1) * ?s + c"
      using spos by (simp add: mult_right_mono)
    with True have "min T ((i + int (Suc k) - 1) * ?s + c) = T" by simp
    with True show ?thesis by (simp add: Let_def covered_Cons covered_Nil min_def)
  next
    case False
    then have lt: "i * ?s + c < T" by simp
    show ?thesis
    proof (cases k)
      case 0
      with lt show ?thesis by (simp add: Let_def covered_Cons covered_Nil min_def)
    next
      case (Suc k')
      have next_start: "(i + 1) * ?s < T"
        using lt Suc.prems(1) by (simp add: algebra_simps)
      have ih: "covered (chunk_boundaries_from k (i + 1) T c ov) =
          {(i + 1) * ?s ..< min T ((i + 1 + int k - 1) * ?s + c)}"
        using Suc.IH [of "i + 1"] Suc.prems(1,2) next_start Suc by simp
      have le1: "(i + 1) * ?s \<le> i * ?s + c"
        using Suc.prems(1) by (simp add: algebra_simps)
      have "i * ?s + c \<le> (i + int k) * ?s + c"
        using spos by (simp add: mult_right_mono)
      with lt have le2: "i * ?s + c \<le> min T ((i + int k) * ?s + c)" by simp
      have "i * ?s \<le> (i + 1) * ?s" using spos by (simp add: algebra_simps)
      with le1 le2 have "{i * ?s ..< i * ?s + c} \<union> {(i + 1) * ?s ..< min T ((i + int k) * ?s + c)}
          = {i * ?s ..< min T ((i + int k) * ?s + c)}"
        by auto
      moreover have "chunk_boundaries_from (Suc k) i T c ov =
          (i, i * ?s, i * ?s + c) # chunk_boundaries_from k (i + 1) T c ov"
        using lt by (simp add: Let_def min_def)
      ultimately show ?thesis using ih by (simp add: covered_Cons)
    qed
  qed
qed

lemma covered_chunk_boundaries:
  assumes "0 \<le> ov" "ov < c" "0 < T"
  shows "covered (chunk_boundaries T c ov) =
           {0 ..< min T ((num_chunks T c ov - 1) * (c - ov) + c)}"
proof -
  have "1 \<le> num_chunks T c ov" by (simp add: num_chunks_def)
  then have "0 < nat (num_chunks T c ov)" "int (nat (num_chunks T c ov)) = num_chunks T c ov"
    by simp_all
  with covered_loop [of ov c "nat (num_chunks T c ov)" 0 T] assms
  show ?thesis by (simp add: chunk_boundaries_def)
qed

lemma ceil_div:
  fixes d s :: int
  assumes "0 < s"
  shows "- ((- d) div s) = (if s dvd d then d div s else d div s + 1)"
  using assms zdiv_zminus1_eq_if [of s d] by (auto simp: dvd_eq_mod_eq_0)

lemma div_le_one:
  fixes d s :: int
  assumes "0 < s" "d \<le> s"
  shows "d div s \<le> 1"
  using zdiv_mono1 [of d s s] assms by simp

lemma div_one_dvd:
  fixes d s :: int
  assumes "0 < s" "d \<le> s" "d div s = 1"
  shows "s dvd d"
proof -
  have "d = s * (d div s) + d mod s" by simp
  with assms(3) have "d = s + d mod s" by simp
  moreover have "0 \<le> d mod s" using assms(1) by simp
  ultimately have "d = s" using assms(2) by linarith
  then show ?thesis by simp
qed

lemma one_le_div:
  fixes d s :: int
  assumes "0 < s" "s \<le> d"
  shows "1 \<le> d div s"
  using zdiv_mono1 [of s d s] assms by simp

lemma num_chunks_eq_spec_iff:
  assumes "ov < c"
  shows "num_chunks T c ov = spec_num_chunks T c ov \<longleftrightarrow> (c - ov) dvd (T - ov) \<or> T \<le> c"
proof -
  have spos: "0 < c - ov" using assms by simp
  show ?thesis
  proof (cases "T \<le> c")
    case True
    then have le: "T - ov \<le> c - ov" by simp
    from div_le_one [OF spos le] div_one_dvd [OF spos le] True
    show ?thesis
      unfolding num_chunks_def spec_num_chunks_def ceil_div [OF spos]
      by (auto simp: max_def)
  next
    case False
    then have "c - ov \<le> T - ov" by simp
    from one_le_div [OF spos this] False
    show ?thesis
      unfolding num_chunks_def spec_num_chunks_def ceil_div [OF spos]
      by (auto simp: max_def)
  qed
qed

lemma ceil_div_covers:
  fixes d s :: int
  assumes "0 < s"
  shows "d \<le> (- ((- d) div s)) * s"
proof (cases "s dvd d")
  case True
  then show ?thesis using assms by (simp add: ceil_div)
next
  case False
  have "d = s * (d div s) + d mod s" by simp
  moreover have "d mod s < s" using assms by simp
  ultimately have "d < s * (d div s) + s" by linarith
  then have "d < (d div s + 1) * s" by (simp add: algebra_simps)
  with False show ?thesis using assms by (simp add: ceil_div)
qed

lemma covered_with_spec_count:
  assumes "0 \<le> ov" "ov < c" "0 < T"
  shows "covered (chunk_boundaries_from (nat (spec_num_chunks T c ov)) 0 T c ov) = {0 ..< T}"
proof -
  let ?n = "spec_num_chunks T c ov"
  have spos: "0 < c - ov" using assms by simp
  have n1: "1 \<le> ?n" by (simp add: spec_num_chunks_def)
  have "T - ov \<le> (- ((- (T - ov)) div (c - ov))) * (c - ov)"
    using spos by (rule ceil_div_covers)
  also have "\<dots> \<le> ?n * (c - ov)"
    using spos by (intro mult_right_mono) (simp_all add: spec_num_chunks_def)
  finally have "T \<le> (?n - 1) * (c - ov) + c" by (simp add: algebra_simps)
  then have "min T ((0 + int (nat ?n) - 1) * (c - ov) + c) = T"
    using n1 by simp
  moreover have "0 < nat ?n" using n1 by simp
  ultimately show ?thesis
    using covered_loop [of ov c "nat ?n" 0 T] assms by simp
qed


section \<open>Verification: extraction and sanitization\<close>

lemma first_index_None: "first_index P xs = None \<longleftrightarrow> \<not> list_ex P xs"
  by (induction xs) auto

lemma first_index_Some:
  "first_index P xs = Some k \<Longrightarrow>
     list_ex P xs \<and> k < length xs \<and> drop k xs = dropWhile (\<lambda>x. \<not> P x) xs"
  by (induction xs arbitrary: k) (auto split: if_splits)

lemma drop_after: "drop k xs = ys \<Longrightarrow> drop (k + n) xs = drop n ys"
  by (metis add.commute drop_drop)

lemma content_line_from_scan:
  "j + k = length lines \<Longrightarrow>
     content_line_from lines j k =
       Inr (map_option (\<lambda>m. j + m) (first_index is_content_line (drop j lines)))"
proof (induction k arbitrary: j)
  case 0
  then show ?case by simp
next
  case (Suc k)
  then have lt: "j < length lines" by simp
  then have d: "drop j lines = lines ! j # drop (Suc j) lines"
    by (simp add: Cons_nth_drop_Suc)
  from Suc.prems have "Suc j + k = length lines" by simp
  from Suc.IH [OF this] lt show ?case
    by (simp add: py_index_def d option.map_comp comp_def)
qed

lemma extract_characterised:
  "extract_enhanced_prompt_try s = Inr (extract_enhanced_prompt s) \<and>
   extract_enhanced_prompt s =
     (if list_ex has_success_marker (split_nl s)
      then strip (join_nl (takeWhile (\<lambda>l. \<not> is_separator l)
             (drop 2 (dropWhile (\<lambda>l. \<not> has_success_marker l) (split_nl s)))))
      else if list_ex is_fallback_line (split_nl s)
      then strip (join_nl (takeWhile (\<lambda>l. \<not> is_separator l)
             (dropWhile (\<lambda>l. \<not> is_fallback_line l) (split_nl s))))
      else strip s)"
proof (cases "first_index has_success_marker (split_nl s)")
  case (Some i)
  from first_index_Some [OF Some]
  have "list_ex has_success_marker (split_nl s)"
    and "drop (i + 2) (split_nl s) = drop 2 (dropWhile (\<lambda>l. \<not> has_success_marker l) (split_nl s))"
    by (simp, intro drop_after, simp)
  with Some show ?thesis
    by (simp add: extract_enhanced_prompt_def extract_enhanced_prompt_try_def
        prompt_start_idx_def Let_def)
next
  case None
  then have no: "\<not> list_ex has_success_marker (split_nl s)"
    by (simp add: first_index_None)
  show ?thesis
  proof (cases "first_index is_fallback_line (split_nl s)")
    case nf: None
    then have "\<not> list_ex is_fallback_line (split_nl s)" by (simp add: first_index_None)
    with None nf no show ?thesis
      by (simp add: extract_enhanced_prompt_def extract_enhanced_prompt_try_def
          prompt_start_idx_def Let_def)
  next
    case (Some k)
    from first_index_Some [OF Some] None Some no show ?thesis
      by (simp add: extract_enhanced_prompt_def extract_enhanced_prompt_try_def
          prompt_start_idx_def Let_def)
  qed
qed

lemma result_start_idx_characterised:
  "\<exists>found. result_start_idx lines = Inr found \<and>
     drop (case found of Some i \<Rightarrow> i | None \<Rightarrow> min 5 (length lines)) lines = analysis_lines lines"
proof (cases "first_index has_analysis_marker lines")
  case (Some i)
  from first_index_Some [OF Some]
  have "list_ex has_analysis_marker lines"
    and "drop (i + 1) lines = drop 1 (dropWhile (\<lambda>l. \<not> has_analysis_marker l) lines)"
    by (simp, intro drop_after, simp)
  with Some show ?thesis by (simp add: result_start_idx_def analysis_lines_def)
next
  case None
  then have no: "\<not> list_ex has_analysis_marker lines" by (simp add: first_index_None)
  show ?thesis
  proof (cases "first_index has_result_title lines")
    case nt: None
    then have "\<not> list_ex has_result_title lines" by (simp add: first_index_None)
    then have e: "dropWhile (\<lambda>l. \<not> has_result_title l) lines = []"
      by (simp add: list_ex_iff)
    from None nt no show ?thesis
      unfolding result_start_idx_def analysis_lines_def e by simp
  next
    case (Some i)
    from first_index_Some [OF Some]
    have i: "i < length lines"
      and di: "drop i lines = dropWhile (\<lambda>l. \<not> has_result_title l) lines" by simp_all
    from i have "i + (length lines - i) = length lines" by simp
    from content_line_from_scan [OF this]
    have scan: "content_line_from lines i (length lines - i) =
        Inr (map_option (\<lambda>m. i + m) (first_index is_content_line (drop i lines)))" .
    show ?thesis
    proof (cases "first_index is_content_line (drop i lines)")
      case nc: None
      then have "\<not> list_ex is_content_line (drop i lines)" by (simp add: first_index_None)
      with None Some no scan nc di show ?thesis
        by (simp add: result_start_idx_def analysis_lines_def)
    next
      case (Some m)
      from first_index_Some [OF Some]
      have "list_ex is_content_line (drop i lines)"
        and "drop (i + m) lines = dropWhile (\<lambda>l. \<not> is_content_line l) (drop i lines)"
        by (simp, metis add.commute drop_drop)
      with None \<open>first_index has_result_title lines = Some i\<close> no scan Some di show ?thesis
        by (simp add: result_start_idx_def analysis_lines_def)
    qed
  qed
qed

lemma clean_characterised:
  "clean_chunk_output_try out cid a b = Inr (clean_chunk_output out cid a b) \<and>
   clean_chunk_output out cid a b =
     clean_report cid a b
       (strip (join_nl (takeWhile (\<lambda>l. \<not> is_stop_line l) (analysis_lines (split_nl out)))))"
proof -
  from result_start_idx_characterised [of "split_nl out"]
  obtain found where "result_start_idx (split_nl out) = Inr found"
    and "drop (case found of Some i \<Rightarrow> i | None \<Rightarrow> min 5 (length (split_nl out))) (split_nl out)
           = analysis_lines (split_nl out)"
    by blast
  then show ?thesis
    by (simp add: clean_chunk_output_def clean_chunk_output_try_def Let_def analysis_from_def)
qed

text \<open>
  C4, as stated: on missing structure extraction degrades to the full stripped text. A
  text without the success marker whose first line has content is cut at the first
  separator line: of \<open>intro line\<close>, \<open>---\<close>, \<open>the rest of the text\<close> only the first line is
  returned. A marker line with a single line after it yields the empty string.
\<close>

theorem extraction_returns_prefix:
  "\<not> list_ex has_success_marker (split_nl ''intro line\<newline>---\<newline>the rest of the text'') \<and>
   extract_enhanced_prompt ''intro line\<newline>---\<newline>the rest of the text'' = ''intro line'' \<and>
   strip ''intro line\<newline>---\<newline>the rest of the text'' = ''intro line\<newline>---\<newline>the rest of the text'' \<and>
   extract_enhanced_prompt ''Enhanced Prompt Generated Successfully:\<newline>only one line follows'' = ''''"
  by code_simp

text \<open>
  C4, amended: for every input both functions return a string without raising, and the
  string is the following. Extraction: if a line contains the success marker, the lines
  from the second after the first such line up to the next line that strips to \<open>---\<close>,
  joined and stripped; otherwise, if a line is not blank and starts with neither
  \<open>Enhanced Prompt\<close> nor \<open>---\<close>, the lines from the first such line up to the next
  separator line, joined and stripped; otherwise the full stripped text. Sanitization:
  the report built around the analysis, which is read up to the first stop line, joined
  and stripped, from the lines after the first line containing \<open>**Analysis Result:**\<close>;
  failing that, from the first line that is not blank and does not start with \<open>**\<close>, at
  or after the first line containing \<open>**Chunk Processing Result**\<close>; failing that, from
  the lines left after skipping the first \<open>min(5, len(lines))\<close>.
\<close>

theorem extraction_and_sanitization_total:
  "extract_enhanced_prompt_try s = Inr (extract_enhanced_prompt s) \<and>
   extract_enhanced_prompt s =
     (if list_ex has_success_marker (split_nl s)
      then strip (join_nl (takeWhile (\<lambda>l. \<not> is_separator l)
             (drop 2 (dropWhile (\<lambda>l. \<not> has_success_marker l) (split_nl s)))))
      else if list_ex is_fallback_line (split_nl s)
      then strip (join_nl (takeWhile (\<lambda>l. \<not> is_separator l)
             (dropWhile (\<lambda>l. \<not> is_fallback_line l) (split_nl s))))
      else strip s) \<and>
   clean_chunk_output_try out cid a b = Inr (clean_chunk_output out cid a b) \<and>
   clean_chunk_output out cid a b =
     clean_report cid a b
       (strip (join_nl (takeWhile (\<lambda>l. \<not> is_stop_line l)
          (if list_ex has_analysis_marker (split_nl out)
           then drop 1 (dropWhile (\<lambda>l. \<not> has_analysis_marker l) (split_nl out))
           else if list_ex is_content_line
                     (dropWhile (\<lambda>l. \<not> has_result_title l) (split_nl out))
           then dropWhile (\<lambda>l. \<not> is_content_line l)
                  (dropWhile (\<lambda>l. \<not> has_result_title l) (split_nl out))
           else drop (min 5 (length (split_nl out))) (split_nl out)))))"
  using extract_characterised [of s] clean_characterised [of out cid a b]
  by (simp add: analysis_lines_def)

lemma separator_only:
  "(if list_ex has_success_marker (split_nl ''---'')
      then strip (join_nl (takeWhile (\<lambda>l. \<not> is_separator l)
             (drop 2 (dropWhile (\<lambda>l. \<not> has_success_marker l) (split_nl ''---'')))))
      else if list_ex is_fallback_line (split_nl ''---'')
      then strip (join_nl (takeWhile (\<lambda>l. \<not> is_separator l)
             (dropWhile (\<lambda>l. \<not> is_fallback_line l) (split_nl ''---''))))
      else strip ''---'') = ''---''"
  by code_simp

lemma seven_letters:
  "strip (join_nl (takeWhile (\<lambda>l. \<not> is_stop_line l)
          (if list_ex has_analysis_marker (split_nl ''a\<newline>b\<newline>c\<newline>d\<newline>e\<newline>f\<newline>g'')
           then drop 1 (dropWhile (\<lambda>l. \<not> has_analysis_marker l) (split_nl ''a\<newline>b\<newline>c\<newline>d\<newline>e\<newline>f\<newline>g''))
           else if list_ex is_content_line
                     (dropWhile (\<lambda>l. \<not> has_result_title l) (split_nl ''a\<newline>b\<newline>c\<newline>d\<newline>e\<newline>f\<newline>g''))
           then dropWhile (\<lambda>l. \<not> is_content_line l)
                  (dropWhile (\<lambda>l. \<not> has_result_title l) (split_nl ''a\<newline>b\<newline>c\<newline>d\<newline>e\<newline>f\<newline>g''))
           else drop (min 5 (length (split_nl ''a\<newline>b\<newline>c\<newline>d\<newline>e\<newline>f\<newline>g'')))
                  (split_nl ''a\<newline>b\<newline>c\<newline>d\<newline>e\<newline>f\<newline>g'')))) = ''f\<newline>g''"
  by code_simp

theorem extraction_and_sanitization_total_witness:
  "extract_enhanced_prompt ''---'' = ''---'' \<and>
   clean_chunk_output ''a\<newline>b\<newline>c\<newline>d\<newline>e\<newline>f\<newline>g'' None 0 7 = clean_report None 0 7 ''f\<newline>g''"
proof -
  note total = extraction_and_sanitization_total
    [of "''---''" "''a\<newline>b\<newline>c\<newline>d\<newline>e\<newline>f\<newline>g''" None 0 7]
  from total [THEN conjunct2, THEN conjunct1] separator_only
  have a: "extract_enhanced_prompt ''---'' = ''---''" by (rule trans)
  from total [THEN conjunct2, THEN conjunct2, THEN conjunct2] seven_letters
  have "clean_chunk_output ''a\<newline>b\<newline>c\<newline>d\<newline>e\<newline>f\<newline>g'' None 0 7 = clean_report None 0 7 ''f\<newline>g''"
    by (simp only:)
  with a show ?thesis by (rule conjI)
qed

lemma split_nl_nonempty: "split_nl s \<noteq> []"
  by (induction s) (auto split: list.splits)

lemma split_nl_append_nl: "split_nl (a @ NL # b) = split_nl a @ split_nl b"
proof (induction a)
  case Nil
  show ?case by simp
next
  case (Cons c a)
  obtain l ls where "split_nl a = l # ls"
    using split_nl_nonempty by (cases "split_nl a") auto
  with Cons show ?case by simp
qed

lemma join_nl_Cons: "ls \<noteq> [] \<Longrightarrow> join_nl (l # ls) = l @ NL # join_nl ls"
  by (cases ls) auto

lemma join_split_nl: "join_nl (split_nl s) = s"
proof (induction s)
  case Nil
  show ?case by simp
next
  case (Cons c s)
  obtain l ls where eq: "split_nl s = l # ls"
    using split_nl_nonempty by (cases "split_nl s") auto
  show ?case
  proof (cases "c = NL")
    case True
    with Cons show ?thesis by (simp add: join_nl_Cons split_nl_nonempty)
  next
    case False
    have "join_nl ((c # l) # ls) = c # join_nl (l # ls)"
      by (cases ls) auto
    with False eq Cons show ?thesis by simp
  qed
qed

lemma join_nl_snoc: "ls \<noteq> [] \<Longrightarrow> join_nl (ls @ [l]) = join_nl ls @ NL # l"
proof (induction ls)
  case Nil
  then show ?case by simp
next
  case (Cons x ls)
  show ?case
  proof (cases "ls = []")
    case True
    then show ?thesis by simp
  next
    case False
    with Cons have "join_nl (ls @ [l]) = join_nl ls @ NL # l" by simp
    moreover have "join_nl (x # ls @ [l]) = x @ NL # join_nl (ls @ [l])"
      by (rule join_nl_Cons) simp
    moreover have "join_nl (x # ls) = x @ NL # join_nl ls"
      using False by (rule join_nl_Cons)
    ultimately show ?thesis by simp
  qed
qed

lemma strip_snoc_space:
  assumes "isspace c"
  shows "strip (s @ [c]) = strip s"
proof (cases "\<forall>x \<in> set s. isspace x")
  case True
  then have a: "dropWhile isspace s = []" by simp
  from True assms have b: "dropWhile isspace (s @ [c]) = []" by simp
  show ?thesis unfolding strip_def a b by simp
next
  case False
  then have b: "dropWhile isspace (s @ [c]) = dropWhile isspace s @ [c]"
    by (metis dropWhile_append1)
  show ?thesis unfolding strip_def b using assms by simp
qed

lemma isspace_NL: "isspace NL"
  by (simp add: isspace_def)

text \<open>
  C10: format, then extract. For an enhanced prompt \<open>E\<close> none of whose lines is \<open>---\<close>
  once stripped, extracting from the success output of \<open>MetaPromptTool\<close> built around
  \<open>E\<close> gives \<open>E\<close> stripped.
\<close>

theorem extract_meta_report_roundtrip:
  assumes "\<forall>line \<in> set (split_nl E). strip line \<noteq> ''---''"
  shows "extract_enhanced_prompt (meta_report simple_prompt E) = strip E"
proof -
  define rest where "rest = ''Optimization Summary:\<newline>- Original prompt length: '' @
     str_int (int (length simple_prompt)) @
     '' characters  \<newline>- Enhanced prompt length: '' @ str_int (int (length E)) @
     '' characters\<newline>- Optimized for chunk-based processing: Yes\<newline>'' @
     ''- CoT complexity reduction: Applied''"
  have shape: "meta_report simple_prompt E =
      success_marker @ NL # ([] @ NL # (E @ NL # ([] @ NL # (''---'' @ NL # rest))))"
    by (simp add: meta_report_def success_marker_def rest_def)
  have "split_nl (meta_report simple_prompt E) =
      split_nl success_marker @ split_nl [] @ split_nl E @ split_nl [] @ split_nl ''---'' @ split_nl rest"
    unfolding shape by (simp only: split_nl_append_nl)
  moreover have "split_nl success_marker = [success_marker]"
    by (simp add: success_marker_def)
  moreover have "split_nl ''---'' = [''---'']" by simp
  ultimately have lines: "split_nl (meta_report simple_prompt E) =
      success_marker # [] # (split_nl E @ [] # ''---'' # split_nl rest)"
    by simp
  have "has_success_marker success_marker"
    by (simp add: has_success_marker_def success_marker_def)
  then have idx: "prompt_start_idx (success_marker # [] # (split_nl E @ [] # ''---'' # split_nl rest))
      = Some 2"
    by (simp add: prompt_start_idx_def)
  have s0: "strip [] \<noteq> ''---''" by (simp add: strip_def)
  have s1: "strip ''---'' = ''---''" by (simp add: strip_def isspace_def)
  have "takeWhile (\<lambda>line. \<not> is_separator line) (split_nl E @ [] # ''---'' # split_nl rest)
      = split_nl E @ [[]]"
    using assms s0 s1 by (simp add: takeWhile_append2 is_separator_def)
  then have "extract_enhanced_prompt (meta_report simple_prompt E) =
      strip (join_nl (split_nl E @ [[]]))"
    by (simp add: extract_enhanced_prompt_def extract_enhanced_prompt_try_def idx lines Let_def)
  also have "\<dots> = strip (E @ [NL])"
    by (simp add: join_nl_snoc split_nl_nonempty join_split_nl)
  also have "\<dots> = strip E"
    by (rule strip_snoc_space) (rule isspace_NL)
  finally show ?thesis .
qed

lemma two_lines_no_separator: "\<forall>line \<in> set (split_nl ''  do this\<newline>and that ''). strip line \<noteq> ''---''"
  by (simp add: strip_def isspace_def)

theorem extract_meta_report_roundtrip_witness:
  "extract_enhanced_prompt (meta_report ''ab'' ''  do this\<newline>and that '') = ''do this\<newline>and that''"
proof -
  from extract_meta_report_roundtrip [OF two_lines_no_separator, of "''ab''"]
  show ?thesis by (simp add: strip_def isspace_def)
qed

section \<open>Verification: the orchestrator\<close>

text \<open>
  C9: without a model client the isolating chunk run returns the error
  \<open>LLM client not available for enhanced_chunk_tool\<close> and calls no internal tool, so the
  enhancement is never attempted, whatever the other fields and arguments are.
\<close>

theorem no_client_no_enhancement:
  assumes "llm_client tool = None"
  shows "EnhancedChunkTool_execute tool arguments =
           (result_error ''LLM client not available for enhanced_chunk_tool'' 1, [])"
  using assms by (simp add: EnhancedChunkTool_execute_def)

theorem no_client_no_enhancement_witness:
  "EnhancedChunkTool_execute (EnhancedChunkTool_init Map.empty None) test_arguments =
     (result_error ''LLM client not available for enhanced_chunk_tool'' 1, [])"
proof -
  have h: "llm_client (EnhancedChunkTool_init Map.empty None) = None"
    by (simp add: EnhancedChunkTool_init_def)
  from no_client_no_enhancement [OF h] show ?thesis .
qed

lemma execute_meta_raises:
  assumes "runs tool arguments" "meta_tool tool = Some meta"
    and "meta (meta_args_of arguments) = Inl ex"
  shows "EnhancedChunkTool_execute tool arguments =
     (result_error (''Enhanced chunk processing failed: '' @ exc_str ex) 1,
      [MetaExecute (meta_args_of arguments)])"
  using assms by (cases "chunk_tool tool") (auto simp: EnhancedChunkTool_execute_def runs_def)

lemma execute_meta_error:
  assumes "runs tool arguments" "meta_tool tool = Some meta"
    and "meta (meta_args_of arguments) = Inr meta_result" "error meta_result = Some err"
  shows "EnhancedChunkTool_execute tool arguments =
     (result_error (''Internal prompt enhancement failed: '' @ err) 1,
      [MetaExecute (meta_args_of arguments)])"
  using assms by (cases "chunk_tool tool") (auto simp: EnhancedChunkTool_execute_def runs_def)

lemma execute_meta_no_output:
  assumes "runs tool arguments" "meta_tool tool = Some meta"
    and "meta (meta_args_of arguments) = Inr meta_result" "error meta_result = None"
    and "output meta_result = None"
  shows "EnhancedChunkTool_execute tool arguments =
     (result_error (''Enhanced chunk processing failed: '' @ exc_str none_has_no_strip) 1,
      [MetaExecute (meta_args_of arguments)])"
  using assms by (cases "chunk_tool tool") (auto simp: EnhancedChunkTool_execute_def runs_def)

lemma execute_chunk_stage:
  assumes "runs tool arguments" "meta_tool tool = Some meta" "chunk_tool tool = Some chunk"
    and "meta (meta_args_of arguments) = Inr meta_result" "error meta_result = None"
    and "output meta_result = Some meta_output"
  shows "EnhancedChunkTool_execute tool arguments =
     (chunk_stage_result arguments
        (chunk (chunk_args_of arguments (extract_enhanced_prompt meta_output))),
      [MetaExecute (meta_args_of arguments),
       ChunkExecute (chunk_args_of arguments (extract_enhanced_prompt meta_output))])"
  using assms
  by (auto simp: EnhancedChunkTool_execute_def runs_def Let_def chunk_stage_result_def
           split: sum.splits option.splits)

lemma execute_paths:
  assumes "EnhancedChunkTool_execute tool arguments = (res, calls)"
  shows "calls = [] \<and> output res = None \<or>
         calls = [MetaExecute (meta_args_of arguments)] \<and> output res = None \<and> runs tool arguments \<or>
         (\<exists>meta chunk meta_result meta_output.
            runs tool arguments \<and>
            meta_tool tool = Some meta \<and> chunk_tool tool = Some chunk \<and>
            meta (meta_args_of arguments) = Inr meta_result \<and> error meta_result = None \<and>
            output meta_result = Some meta_output \<and>
            res = chunk_stage_result arguments
                    (chunk (chunk_args_of arguments (extract_enhanced_prompt meta_output))) \<and>
            calls = [MetaExecute (meta_args_of arguments),
                     ChunkExecute (chunk_args_of arguments (extract_enhanced_prompt meta_output))])"
proof (cases "runs tool arguments")
  case False
  then have "EnhancedChunkTool_execute tool arguments =
      (result_error ''LLM client not available for enhanced_chunk_tool'' 1, []) \<or>
      EnhancedChunkTool_execute tool arguments =
      (result_error ''Internal tools not properly initialized'' 1, []) \<or>
      EnhancedChunkTool_execute tool arguments =
      (result_error ''Required parameters: file_path, start_pos, end_pos, query, simple_prompt'' 1, [])"
    by (cases "meta_tool tool"; cases "chunk_tool tool")
       (auto simp: EnhancedChunkTool_execute_def runs_def)
  with assms show ?thesis by (auto simp: result_error_def)
next
  case True
  then obtain meta chunk where tools: "meta_tool tool = Some meta" "chunk_tool tool = Some chunk"
    by (auto simp: runs_def)
  show ?thesis
  proof (cases "meta (meta_args_of arguments)")
    case (Inl ex)
    from execute_meta_raises [OF True tools(1) Inl] assms True show ?thesis
      by (auto simp: result_error_def)
  next
    case (Inr meta_result)
    show ?thesis
    proof (cases "error meta_result")
      case (Some err)
      from execute_meta_error [OF True tools(1) Inr Some] assms True show ?thesis
        by (auto simp: result_error_def)
    next
      case None
      show ?thesis
      proof (cases "output meta_result")
        case no: None
        from execute_meta_no_output [OF True tools(1) Inr None no] assms True show ?thesis
          by (auto simp: result_error_def)
      next
        case (Some meta_output)
        from execute_chunk_stage [OF True tools Inr None Some] assms True tools Inr None Some
        show ?thesis by auto
      qed
    qed
  qed
qed


text \<open>
  C5: whenever the enhancement stage was called and returned an error, the chunk tool is
  not called at all, and the orchestrator fails with that error wrapped as
  \<open>Internal prompt enhancement failed: ...\<close>.
\<close>

theorem enhancement_error_stops_pipeline:
  assumes "EnhancedChunkTool_execute tool arguments = (res, calls)"
    and "meta_tool tool = Some meta" and "MetaExecute margs \<in> set calls"
    and "meta margs = Inr meta_result" and "error meta_result = Some err"
  shows "(\<forall>c \<in> set calls. \<not> is_chunk_call c) \<and>
         res = result_error (''Internal prompt enhancement failed: '' @ err) 1"
proof -
  from execute_paths [OF assms(1)] assms(3)
  have margs: "margs = meta_args_of arguments" and r: "runs tool arguments"
    by auto
  from assms(4) margs have "meta (meta_args_of arguments) = Inr meta_result" by simp
  from execute_meta_error [OF r assms(2) this assms(5)] assms(1)
  show ?thesis by (simp add: is_chunk_call_def)
qed

lemma silent_meta_fails:
  "MetaPromptTool_execute (Some silent_client) (meta_args_of test_arguments) =
     result_error ''Failed to generate enhanced prompt'' 1"
  by (simp add: MetaPromptTool_execute_def silent_client_def meta_args_of_def test_arguments_def)

lemma silent_run:
  "EnhancedChunkTool_execute (EnhancedChunkTool_init Map.empty (Some silent_client)) test_arguments =
     (result_error ''Internal prompt enhancement failed: Failed to generate enhanced prompt'' 1,
      [MetaExecute (meta_args_of test_arguments)])"
proof -
  have r: "runs (EnhancedChunkTool_init Map.empty (Some silent_client)) test_arguments"
    by (simp add: runs_def EnhancedChunkTool_init_def arguments_valid_def truthy_def
        test_arguments_def)
  have m: "meta_tool (EnhancedChunkTool_init Map.empty (Some silent_client)) =
      Some (\<lambda>a. Inr (MetaPromptTool_execute (Some silent_client) a))"
    by (simp add: EnhancedChunkTool_init_def)
  have e: "error (result_error ''Failed to generate enhanced prompt'' 1) =
      Some ''Failed to generate enhanced prompt''"
    by (simp add: result_error_def)
  from execute_meta_error [OF r m _ e] silent_meta_fails show ?thesis by simp
qed

theorem enhancement_error_stops_pipeline_witness:
  "\<not> is_chunk_call (MetaExecute (meta_args_of test_arguments)) \<and>
   snd (EnhancedChunkTool_execute
          (EnhancedChunkTool_init Map.empty (Some silent_client)) test_arguments) =
     [MetaExecute (meta_args_of test_arguments)] \<and>
   fst (EnhancedChunkTool_execute
          (EnhancedChunkTool_init Map.empty (Some silent_client)) test_arguments) =
     result_error ''Internal prompt enhancement failed: Failed to generate enhanced prompt'' 1"
proof -
  have m: "meta_tool (EnhancedChunkTool_init Map.empty (Some silent_client)) =
      Some (\<lambda>a. Inr (MetaPromptTool_execute (Some silent_client) a))"
    by (simp add: EnhancedChunkTool_init_def)
  have c: "MetaExecute (meta_args_of test_arguments) \<in> set [MetaExecute (meta_args_of test_arguments)]"
    by simp
  have r: "(\<lambda>a. Inr (MetaPromptTool_execute (Some silent_client) a)) (meta_args_of test_arguments) =
      Inr (result_error ''Failed to generate enhanced prompt'' 1)"
    by (simp add: silent_meta_fails)
  have e: "error (result_error ''Failed to generate enhanced prompt'' 1) =
      Some ''Failed to generate enhanced prompt''"
    by (simp add: result_error_def)
  from enhancement_error_stops_pipeline [OF silent_run m c r e] silent_run
  show ?thesis by simp
qed

lemma explicit_none_chunk_id:
  "chunk_id_of (test_arguments\<lparr>in_chunk_id := NoneValue\<rparr>) = None \<and>
   chunk_id_of test_arguments = Some ''chunk_0_10'' \<and>
   chunk_id (chunk_args_of (test_arguments\<lparr>in_chunk_id := NoneValue\<rparr>) ''p'') = NoneValue \<and>
   clean_report None 0 10 ''x'' =
     ''**Chunk Analysis Result**\<newline>\<newline>**Chunk:** None (position 0:10)\<newline>'' @
     ''**Size:** 10 characters\<newline>\<newline>**Analysis:**\<newline>x\<newline>\<newline>**Status:** Processing complete''"
  by code_simp

text \<open>
  C1: the enhanced instruction is claimed never to occur in the returned value, as the
  class states of itself (\<open>Never exposing the long enhanced prompt to the main model's
  context\<close>). The chunk model receives the instruction in its user message, and the
  orchestrator returns the model's analysis without looking for the instruction in it.
  With a client that produces a 200-character instruction and then repeats it as its
  analysis, the invocation succeeds, the instruction extracted and handed to the chunk
  tool is that text, and the returned value contains it.
\<close>

theorem echoed_prompt_is_returned:
  "200 \<le> length long_prompt \<and>
   snd (EnhancedChunkTool_execute echo_tool test_arguments) =
     [MetaExecute (meta_args_of test_arguments),
      ChunkExecute (chunk_args_of test_arguments long_prompt)] \<and>
   error (fst (EnhancedChunkTool_execute echo_tool test_arguments)) = None \<and>
   contains (the (output (fst (EnhancedChunkTool_execute echo_tool test_arguments)))) long_prompt"
  by code_simp

section \<open>Verification: the chunk tool and the agent\<close>

text \<open>
  C6: the chunk tool is claimed to read the characters \<open>[start, end)\<close> of the stored
  text. \<open>f.seek(start_pos)\<close> positions the file at byte \<open>start_pos\<close>, while
  \<open>f.read(n)\<close> counts characters. The saved text of three characters U+00E9, a, b is
  four bytes long; for the range \<open>[2, 3)\<close> the tool submits \<open>a\<close> to the model, where the
  third character of the text is \<open>b\<close>.
\<close>

theorem chunk_tool_seeks_bytes:
  "fs accented_world ''/t/context.txt'' = Some (File [0xC3, 0xA9, 0x61, 0x62]) \<and>
   slice accented_text 2 3 = ''b'' \<and>
   read_chunk (fs accented_world) ''/t/context.txt'' 2 3 = Inr ''a'' \<and>
   TextChunkTool_execute (fs accented_world) (Some parrot_client) third_character_arguments =
     result_output
       (chunk_result_report ''chunk_2_3'' 2 3 ''What is here?'' ''a''
          (chunk_user_message ''Quote the chunk.'' ''What is here?'' ''chunk_2_3'' 2 3 ''a''))"
  by code_simp

text \<open>
  For a stored text of ASCII characters without carriage returns, bytes and characters
  coincide and the read is the slice.
\<close>

lemma utf8_encode_ascii:
  "is_ascii s \<Longrightarrow> utf8_encode s = map (\<lambda>c. of_nat (of_char c)) s"
  by (induction s) (auto simp: utf8_encode_def utf8_char_def is_ascii_def)

lemma byte_of_char: "unat (of_nat (of_char c) :: byte) = of_char c"
  by (simp add: unat_of_nat)

lemma decode_ascii:
  "is_ascii s \<Longrightarrow> utf8_decode_from pos (map (\<lambda>c. of_nat (of_char c)) s) = Inr s"
proof (induction s arbitrary: pos)
  case Nil
  show ?case by simp
next
  case (Cons c s)
  then have c: "(of_char c :: nat) < 128" and s: "is_ascii s"
    by (simp_all add: is_ascii_def)
  show ?case
  proof (cases s)
    case Nil
    with c show ?thesis by (simp add: byte_of_char)
  next
    case (Cons d s')
    with Cons.IH [OF s, of "pos + 1"] c show ?thesis by (simp add: byte_of_char)
  qed
qed

lemma universal_newlines_id: "CR \<notin> set s \<Longrightarrow> universal_newlines s = s"
  by (induction s rule: universal_newlines.induct) auto

lemma is_ascii_drop: "is_ascii s \<Longrightarrow> is_ascii (drop k s)"
  by (auto simp: is_ascii_def dest: in_set_dropD)

lemma read_chunk_ascii:
  assumes "is_ascii text" "CR \<notin> set text" "files p = Some (File (utf8_encode text))" "0 \<le> s"
  shows "read_chunk files p s e = Inr (slice text s e)"
proof -
  have "drop (nat s) (utf8_encode text) = map (\<lambda>c. of_nat (of_char c)) (drop (nat s) text)"
    using assms(1) by (simp add: utf8_encode_ascii drop_map)
  moreover have "is_ascii (drop (nat s) text)" using assms(1) by (rule is_ascii_drop)
  ultimately have "utf8_decode_from 0 (drop (nat s) (utf8_encode text)) = Inr (drop (nat s) text)"
    by (simp add: decode_ascii)
  moreover have "CR \<notin> set (drop (nat s) text)" using assms(2) by (auto dest: in_set_dropD)
  moreover have "nat (e - s) = nat e - nat s" using assms(4) by simp
  ultimately show ?thesis using assms(3)
    by (simp add: read_chunk_def read_text_at_def slice_def universal_newlines_id)
qed

text \<open>
  C8, as stated: the workspace is gone after every task, also on failure paths.
  \<open>execute_task\<close> runs the cleanup after the control loop has returned; when the loop
  raises, the exception leaves \<open>execute_task\<close> before the cleanup and the directory stays.
\<close>

theorem workspace_kept_when_loop_raises:
  "fst (execute_task raising_loop [] agent_world) = TaskRaises (OtherException ''interrupted'') \<and>
   os_path_exists (fs (snd (execute_task raising_loop [] agent_world))) ''/tmp/long_context_ab12''"
  by code_simp

lemma is_under_refl: "is_under d d"
  by (simp add: is_under_def)

lemma cleanup_leaves:
  assumes "agent w = Some a"
  shows "os_path_exists (fs (cleanup_temp_files locked w)) (temp_dir a) \<longleftrightarrow>
           (\<exists>bytes. fs w (temp_dir a) = Some (File bytes)) \<or>
           fs w (temp_dir a) = Some Dir \<and> remains (fs w) locked (temp_dir a)"
proof (cases "fs w (temp_dir a)")
  case None
  with assms show ?thesis by (simp add: cleanup_temp_files_def os_path_exists_def)
next
  case (Some node)
  show ?thesis
  proof (cases node)
    case Dir
    with Some assms show ?thesis
      by (simp add: cleanup_temp_files_def os_path_exists_def rmtree_def is_under_refl)
  next
    case (File bytes)
    with Some assms show ?thesis
      by (simp add: cleanup_temp_files_def os_path_exists_def rmtree_def)
  qed
qed

text \<open>
  C8, amended: if the control loop returns an execution, successful or not, and has not
  changed the agent's \<open>temp_dir\<close>, then \<open>execute_task\<close> returns that execution and the
  workspace path no longer exists afterwards, unless its removal fails, which
  \<open>rmtree(ignore_errors=True)\<close> passes over: the path still exists exactly when the loop
  left a regular file there, or when it is a directory with an entry, itself or below it,
  whose removal fails. If the control loop raises, \<open>execute_task\<close> raises the same
  exception and runs no cleanup, so the files stay as the loop left them.
\<close>

theorem workspace_removed_when_loop_returns:
  "(base w = (TaskReturns execution, w') \<and> agent w = Some a \<and> agent w' = Some a' \<and>
    temp_dir a' = temp_dir a \<longrightarrow>
      fst (execute_task base locked w) = TaskReturns execution \<and>
      (os_path_exists (fs (snd (execute_task base locked w))) (temp_dir a) \<longleftrightarrow>
         (\<exists>bytes. fs w' (temp_dir a) = Some (File bytes)) \<or>
         fs w' (temp_dir a) = Some Dir \<and> remains (fs w') locked (temp_dir a))) \<and>
   (loop v = (TaskRaises ex, v') \<longrightarrow> execute_task loop locked v = (TaskRaises ex, v'))"
proof (intro conjI impI)
  assume h: "base w = (TaskReturns execution, w') \<and> agent w = Some a \<and> agent w' = Some a' \<and>
    temp_dir a' = temp_dir a"
  then show "fst (execute_task base locked w) = TaskReturns execution"
    by (simp add: execute_task_def)
  from h have "snd (execute_task base locked w) = cleanup_temp_files locked w'"
    by (simp add: execute_task_def)
  with h cleanup_leaves [of w' a' locked]
  show "os_path_exists (fs (snd (execute_task base locked w))) (temp_dir a) \<longleftrightarrow>
         (\<exists>bytes. fs w' (temp_dir a) = Some (File bytes)) \<or>
         fs w' (temp_dir a) = Some Dir \<and> remains (fs w') locked (temp_dir a)"
    by simp
next
  assume "loop v = (TaskRaises ex, v')"
  then show "execute_task loop locked v = (TaskRaises ex, v')"
    by (simp add: execute_task_def)
qed

lemma failing_loop_run:
  "failing_loop agent_world =
     (TaskReturns \<lparr>success = False, final_result = Some ''Agent execution failed''\<rparr>,
      after_failing_loop)"
  by (simp add: failing_loop_def after_failing_loop_def)

lemma agent_world_agent:
  "agent agent_world = Some \<lparr>temp_dir = ''/tmp/long_context_ab12'', context_file_path = None\<rparr>"
  by code_simp

lemma failing_loop_agent:
  "agent after_failing_loop =
     Some \<lparr>temp_dir = ''/tmp/long_context_ab12'',
           context_file_path = Some ''/tmp/long_context_ab12/context.txt''\<rparr>"
  by code_simp

lemma failing_loop_files:
  "fs after_failing_loop ''/tmp/long_context_ab12'' = Some Dir"
  "fs after_failing_loop ''/tmp/long_context_ab12/context.txt'' \<noteq> None"
  "\<not> remains (fs after_failing_loop) [] ''/tmp/long_context_ab12''"
  "remains (fs after_failing_loop) [''/tmp/long_context_ab12/context.txt''] ''/tmp/long_context_ab12''"
  by code_simp+

lemma raising_loop_run:
  "raising_loop agent_world = (TaskRaises (OtherException ''interrupted''), agent_world)"
  by (simp add: raising_loop_def)

theorem workspace_removed_when_loop_returns_witness:
  "fst (execute_task failing_loop [] agent_world) =
     TaskReturns \<lparr>success = False, final_result = Some ''Agent execution failed''\<rparr> \<and>
   \<not> os_path_exists (fs (snd (execute_task failing_loop [] agent_world))) ''/tmp/long_context_ab12'' \<and>
   os_path_exists (fs (snd (execute_task failing_loop [''/tmp/long_context_ab12/context.txt'']
                              agent_world))) ''/tmp/long_context_ab12'' \<and>
   execute_task raising_loop [] agent_world =
     (TaskRaises (OtherException ''interrupted''), agent_world)"
proof -
  have same: "temp_dir \<lparr>temp_dir = ''/tmp/long_context_ab12'',
           context_file_path = Some ''/tmp/long_context_ab12/context.txt''\<rparr> =
      temp_dir \<lparr>temp_dir = ''/tmp/long_context_ab12'', context_file_path = None\<rparr>"
    by simp
  note t1 = workspace_removed_when_loop_returns
    [of failing_loop agent_world _ after_failing_loop _ _ "[]" raising_loop agent_world _ agent_world,
     THEN conjunct1, rule_format, OF conjI [OF failing_loop_run conjI [OF agent_world_agent
       conjI [OF failing_loop_agent same]]]]
  note t2 = workspace_removed_when_loop_returns
    [of failing_loop agent_world _ after_failing_loop _ _ "[''/tmp/long_context_ab12/context.txt'']"
        raising_loop agent_world _ agent_world,
     THEN conjunct1, rule_format, OF conjI [OF failing_loop_run conjI [OF agent_world_agent
       conjI [OF failing_loop_agent same]]]]
  note t3 = workspace_removed_when_loop_returns
    [of failing_loop agent_world _ after_failing_loop _ _ "[]" raising_loop agent_world _ agent_world,
     THEN conjunct2, rule_format, OF raising_loop_run]
  from t1 t2 t3 failing_loop_files show ?thesis by simp
qed

end
